theory Spec2Isabelle
  imports Complex_Main "HOL-Library.Word"
begin

section \<open>Data model of the scene manager\<close>

text \<open>
  The C++ type \<open>float\<close> is idealised as \<open>real\<close>: no claim below depends on rounding.
  \<open>glm::vec2\<close>, \<open>glm::vec3\<close> and \<open>glm::vec4\<close> are tuples of floats, \<open>glm::mat4\<close> is
  four columns (glm stores matrices column by column).
\<close>

datatype vec2 = vec2 real real

datatype vec3 = vec3 real real real

datatype vec4 = vec4 real real real real

datatype mat4 = mat4 vec4 vec4 vec4 vec4

type_synonym GLuint = "32 word"

text \<open>\<open>const int MAX_TEXTURES = 16\<close> (SceneManager.h).\<close>

definition MAX_TEXTURES :: int where
  "MAX_TEXTURES = 16"

text \<open>\<open>struct TEXTURE_INFO { std::string tag; uint32_t ID; }\<close>\<close>

record TEXTURE_INFO =
  tag :: string
  ID :: GLuint

text \<open>
  \<open>struct OBJECT_MATERIAL { glm::vec3 diffuseColor; glm::vec3 specularColor;
  float shininess; std::string tag; }\<close>.  Both structs of the source have a field
  \<open>tag\<close>; they are told apart as \<open>TEXTURE_INFO.tag\<close> and \<open>OBJECT_MATERIAL.tag\<close>.
\<close>

record OBJECT_MATERIAL =
  diffuseColor :: vec3
  specularColor :: vec3
  shininess :: real
  tag :: string

text \<open>
  The undefined behaviours of the C++ program that the functions below can reach are
  made values: a call through the null \<open>m_pShaderManager\<close>, and an access to
  \<open>m_textureIDs\<close> outside \<open>0 .. MAX_TEXTURES - 1\<close>.
\<close>

datatype fault = NullPointerDereference | IndexOutOfBounds int

subsection \<open>The collaborators\<close>

text \<open>
  Modelled from the spec: the class \<open>ShaderManager\<close> (ShaderManager.h is not under src/).
  The spec describes it as a write-only sink of named uniform values; it is the list of
  the writes received so far, the latest first, so that \<open>map_of\<close> reads the value a name
  currently has.
\<close>

datatype uniform =
    IntValue int
  | BoolValue bool
  | FloatValue real
  | Vec2Value vec2
  | Vec3Value vec3
  | Vec4Value vec4
  | Mat4Value mat4
  | Sampler2DValue int

type_synonym ShaderManager = "(string \<times> uniform) list"

definition setUniform :: "string \<Rightarrow> uniform \<Rightarrow> ShaderManager \<Rightarrow> ShaderManager" where
  "setUniform name v sh = (name, v) # sh"

definition uniformValue :: "ShaderManager \<Rightarrow> string \<Rightarrow> uniform option" where
  "uniformValue sh name = map_of sh name"

text \<open>
  Modelled from the spec: the class \<open>ShapeMeshes\<close> (ShapeMeshes.h is not under src/), the
  primitive mesh provider with one load and one draw operation per primitive kind. It is
  the list of the calls it has received, the earliest first.
\<close>

datatype primitive = Plane | Box | Cone | Sphere | Cylinder

datatype mesh_call = LoadMesh primitive | DrawMesh primitive

type_synonym ShapeMeshes = "mesh_call list"

text \<open>
  Modelled from the spec: the OpenGL texture state (the driver is not under src/).
  \<open>gl_objects\<close> maps the texture names in use to their texture objects,
  \<open>gl_activeTexture\<close> is the unit selected by \<open>glActiveTexture(GL_TEXTURE0 + i)\<close>,
  \<open>gl_binding2D\<close> gives the texture bound to \<open>GL_TEXTURE_2D\<close> on each unit, and
  \<open>gl_deleted\<close> lists the names passed to \<open>glDeleteTextures\<close>, the earliest first.
\<close>

datatype gl_param = GL_TEXTURE_WRAP_S | GL_TEXTURE_WRAP_T | GL_TEXTURE_MIN_FILTER | GL_TEXTURE_MAG_FILTER

datatype gl_value = GL_REPEAT | GL_LINEAR

datatype gl_format = GL_RGB8 | GL_RGBA8

record gl_texture =
  tex_params :: "(gl_param \<times> gl_value) list"
  tex_image :: "(gl_format \<times> int \<times> int) option"
  tex_mipmap :: bool

record gl_state =
  gl_objects :: "GLuint \<Rightarrow> gl_texture option"
  gl_activeTexture :: int
  gl_binding2D :: "int \<Rightarrow> GLuint"
  gl_deleted :: "GLuint list"

text \<open>The lines the program writes to \<open>std::cout\<close>, one constructor per message.\<close>

datatype log_line =
    LoadedImage string int int int
  | UnsupportedChannels int
  | MaxTexturesLoaded string
  | CouldNotLoadImage string
  | TextureNotFound string
  | MaterialNotFound string

subsection \<open>The class SceneManager\<close>

text \<open>
  The private members of \<open>SceneManager\<close>, followed by the state of the world the methods
  act on: the OpenGL context and the console. \<open>m_pShaderManager\<close> is a pointer that may be
  null (\<open>None\<close>); the object it points to is held in place.
\<close>

record SceneManager =
  m_pShaderManager :: "ShaderManager option"
  m_basicMeshes :: ShapeMeshes
  m_loadedTextures :: int
  m_textureIDs :: "TEXTURE_INFO list"
  m_objectMaterials :: "OBJECT_MATERIAL list"
  gl :: gl_state
  cout :: "log_line list"

text \<open>
  The constructor. The array \<open>m_textureIDs\<close> is default-initialised: every tag is the
  empty string and every \<open>ID\<close> is indeterminate, given here by \<open>junk\<close>. The OpenGL context
  exists before the scene manager does and is a parameter.
\<close>

definition SceneManager_ctor :: "ShaderManager option \<Rightarrow> (nat \<Rightarrow> GLuint) \<Rightarrow> gl_state \<Rightarrow> SceneManager" where
  "SceneManager_ctor pShaderManager junk g =
     \<lparr> m_pShaderManager = pShaderManager,
       m_basicMeshes = [],
       m_loadedTextures = 0,
       m_textureIDs = map (\<lambda>i. \<lparr> TEXTURE_INFO.tag = [], ID = junk i \<rparr>) [0 ..< nat MAX_TEXTURES],
       m_objectMaterials = [],
       gl = g,
       cout = [] \<rparr>"

section \<open>Material catalog\<close>

text \<open>
  The loop of \<open>FindMaterial\<close>: \<open>while ((index < m_objectMaterials.size()) && (bFound == false))\<close>.
  It returns the output parameter \<open>material\<close> as the loop leaves it. The comparison is
  unsigned in C++; \<open>index\<close> starts at 0 and only grows, and the test \<open>0 \<le> index\<close> says
  so.
\<close>

function FindMaterial_loop ::
  "string \<Rightarrow> OBJECT_MATERIAL list \<Rightarrow> int \<Rightarrow> bool \<Rightarrow> OBJECT_MATERIAL \<Rightarrow> OBJECT_MATERIAL" where
  "FindMaterial_loop tg ms index bFound material =
     (if 0 \<le> index \<and> index < int (length ms) \<and> bFound = False then
        (if OBJECT_MATERIAL.tag (ms ! nat index) = tg then
           FindMaterial_loop tg ms index True
             (material\<lparr> diffuseColor := diffuseColor (ms ! nat index),
                        specularColor := specularColor (ms ! nat index),
                        shininess := shininess (ms ! nat index) \<rparr>)
         else FindMaterial_loop tg ms (index + 1) bFound material)
      else material)"
  by pat_completeness auto
termination
  by (relation "measure (\<lambda>(tg, ms, index, bFound, material).
        2 * nat (int (length ms) - index) + (if bFound then 0 else 1))") auto

declare FindMaterial_loop.simps [simp del]

text \<open>
  \<open>bool FindMaterial(std::string tag, OBJECT_MATERIAL& material)\<close>: the result and the
  output parameter. It returns \<open>false\<close> for the empty catalog only; after the loop it
  returns \<open>true\<close> whatever \<open>bFound\<close> is.
\<close>

definition FindMaterial :: "string \<Rightarrow> OBJECT_MATERIAL \<Rightarrow> SceneManager \<Rightarrow> bool \<times> OBJECT_MATERIAL" where
  "FindMaterial tg material s =
     (if length (m_objectMaterials s) = 0 then (False, material)
      else (True, FindMaterial_loop tg (m_objectMaterials s) 0 False material))"

text \<open>
  \<open>DefineObjectMaterials\<close>: clears the catalog and appends the twelve materials of the
  scene, in this order.
\<close>

definition DefineObjectMaterials :: "SceneManager \<Rightarrow> SceneManager" where
  "DefineObjectMaterials s = s\<lparr> m_objectMaterials :=
     [ \<lparr> diffuseColor = vec3 0.8 0.4 0.8, specularColor = vec3 0.2 0.2 0.2,
         shininess = 1.0, tag = ''plastic'' \<rparr>,
       \<lparr> diffuseColor = vec3 0.6 0.5 0.2, specularColor = vec3 0.1 0.2 0.2,
         shininess = 1.0, tag = ''wood'' \<rparr>,
       \<lparr> diffuseColor = vec3 0.3 0.3 0.2, specularColor = vec3 0.7 0.7 0.8,
         shininess = 8.0, tag = ''metal'' \<rparr>,
       \<lparr> diffuseColor = vec3 0.3 0.3 0.2, specularColor = vec3 0.9 0.9 0.8,
         shininess = 10.0, tag = ''glass'' \<rparr>,
       \<lparr> diffuseColor = vec3 0.5 0.5 0.5, specularColor = vec3 0.7 0.7 0.7,
         shininess = 6.0, tag = ''tile'' \<rparr>,
       \<lparr> diffuseColor = vec3 0.5 0.5 0.5, specularColor = vec3 0.73 0.3 0.3,
         shininess = 6.0, tag = ''stone'' \<rparr>,
       \<lparr> diffuseColor = vec3 1.0 0.98 0.88, specularColor = vec3 0.1 0.1 0.1,
         shininess = 0.5, tag = ''lampshade'' \<rparr>,
       \<lparr> diffuseColor = vec3 0.25 0.15 0.05, specularColor = vec3 0.2 0.2 0.1,
         shininess = 3.0, tag = ''lampbase'' \<rparr>,
       \<lparr> diffuseColor = vec3 0.4 0.05 0.05, specularColor = vec3 0.05 0.05 0.05,
         shininess = 0.8, tag = ''bookcover'' \<rparr>,
       \<lparr> diffuseColor = vec3 0.7 0.7 0.9, specularColor = vec3 0.3 0.3 0.4,
         shininess = 3.0, tag = ''jar'' \<rparr>,
       \<lparr> diffuseColor = vec3 0.4 0.3 0.2, specularColor = vec3 0.8 0.8 0.8,
         shininess = 30.0, tag = ''tableSurface'' \<rparr>,
       \<lparr> diffuseColor = vec3 0.9 0.9 0.9, specularColor = vec3 0.1 0.1 0.1,
         shininess = 1.0, tag = ''windowFrame'' \<rparr> ] \<rparr>"


section \<open>Vector and matrix operations of glm\<close>

text \<open>
  Modelled from the spec: the glm library (its headers are not under src/). The spec
  names what the Transform Builder takes from it: a scale matrix, a rotation matrix about
  a unit axis for an angle in radians, a translation matrix, the conversion of degrees to
  radians, the sum of two vectors and the product of two matrices, applied to column
  vectors. \<open>glm_rotate\<close> is the rotation about an arbitrary axis, which it normalises.
\<close>

instantiation vec3 :: plus
begin

fun plus_vec3 :: "vec3 \<Rightarrow> vec3 \<Rightarrow> vec3" where
  "plus_vec3 (vec3 a b c) (vec3 x y z) = vec3 (a + x) (b + y) (c + z)"

instance ..

end

instantiation vec4 :: plus
begin

fun plus_vec4 :: "vec4 \<Rightarrow> vec4 \<Rightarrow> vec4" where
  "plus_vec4 (vec4 a b c d) (vec4 x y z w) = vec4 (a + x) (b + y) (c + z) (d + w)"

instance ..

end

fun vec4_scaled :: "vec4 \<Rightarrow> real \<Rightarrow> vec4" where
  "vec4_scaled (vec4 a b c d) k = vec4 (a * k) (b * k) (c * k) (d * k)"

text \<open>
  Modelled from the spec: the product of a matrix and a column vector, the combination of
  the columns by the vector's entries, and the product of two matrices, column by column.
\<close>

fun mat4_vec :: "mat4 \<Rightarrow> vec4 \<Rightarrow> vec4" where
  "mat4_vec (mat4 c0 c1 c2 c3) (vec4 x y z w) =
     vec4_scaled c0 x + vec4_scaled c1 y + vec4_scaled c2 z + vec4_scaled c3 w"

instantiation mat4 :: times
begin

fun times_mat4 :: "mat4 \<Rightarrow> mat4 \<Rightarrow> mat4" where
  "times_mat4 a (mat4 b0 b1 b2 b3) =
     mat4 (mat4_vec a b0) (mat4_vec a b1) (mat4_vec a b2) (mat4_vec a b3)"

instance ..

end

text \<open>
  Modelled from the spec: \<open>glm::radians\<close>, the conversion of degrees to radians.
\<close>

definition glm_radians :: "real \<Rightarrow> real" where
  "glm_radians degrees = degrees * (pi / 180)"

text \<open>
  Modelled from the spec: \<open>glm::scale\<close> and \<open>glm::translate\<close> of one vector, the scale
  matrix and the translation matrix.
\<close>

fun glm_scale :: "vec3 \<Rightarrow> mat4" where
  "glm_scale (vec3 x y z) =
     mat4 (vec4 x 0 0 0) (vec4 0 y 0 0) (vec4 0 0 z 0) (vec4 0 0 0 1)"

fun glm_translate :: "vec3 \<Rightarrow> mat4" where
  "glm_translate (vec3 x y z) =
     mat4 (vec4 1 0 0 0) (vec4 0 1 0 0) (vec4 0 0 1 0) (vec4 x y z 1)"

text \<open>
  Modelled from the spec: \<open>glm::rotate\<close> of an angle in radians and an axis, the rotation
  matrix about the normalised axis.
\<close>

fun glm_normalize :: "vec3 \<Rightarrow> vec3" where
  "glm_normalize (vec3 x y z) =
     (let n = sqrt (x * x + y * y + z * z) in vec3 (x / n) (y / n) (z / n))"

fun glm_rotate :: "real \<Rightarrow> vec3 \<Rightarrow> mat4" where
  "glm_rotate angle v =
     (case glm_normalize v of vec3 ax ay az \<Rightarrow>
        let c = cos angle; s = sin angle;
            tx = (1 - c) * ax; ty = (1 - c) * ay; tz = (1 - c) * az
        in mat4 (vec4 (c + tx * ax) (tx * ay + s * az) (tx * az - s * ay) 0)
                (vec4 (ty * ax - s * az) (c + ty * ay) (ty * az + s * ax) 0)
                (vec4 (tz * ax + s * ay) (tz * ay - s * ax) (c + tz * az) 0)
                (vec4 0 0 0 1))"

section \<open>OpenGL texture calls and the image decoder\<close>

text \<open>
  Modelled from the spec: the texture bound to \<open>GL_TEXTURE_2D\<close> on the active unit, and
  a change of that texture object when it exists.
\<close>

definition gl_bound :: "gl_state \<Rightarrow> GLuint" where
  "gl_bound g = gl_binding2D g (gl_activeTexture g)"

definition gl_update_bound :: "(gl_texture \<Rightarrow> gl_texture) \<Rightarrow> gl_state \<Rightarrow> gl_state" where
  "gl_update_bound f g =
     (case gl_objects g (gl_bound g) of
        None \<Rightarrow> g
      | Some t \<Rightarrow> g\<lparr> gl_objects := (gl_objects g)(gl_bound g \<mapsto> f t) \<rparr>)"

text \<open>
  Modelled from the spec: the OpenGL calls the Texture Registry makes, each for one
  texture. \<open>glGenTextures\<close> takes the name the driver hands out as a parameter and makes
  it a texture; \<open>glBindTexture\<close> binds a name on the active unit, which
  \<open>glActiveTexture\<close> selects; \<open>glTexParameteri\<close>, \<open>glTexImage2D\<close> and
  \<open>glGenerateMipmap\<close> act on the texture bound there; \<open>glDeleteTextures\<close> frees the
  name and unbinds it wherever it is bound.
\<close>

definition glGenTextures :: "GLuint \<Rightarrow> gl_state \<Rightarrow> gl_state" where
  "glGenTextures name g =
     g\<lparr> gl_objects := (gl_objects g)(name \<mapsto> \<lparr> tex_params = [], tex_image = None, tex_mipmap = False \<rparr>) \<rparr>"

definition glBindTexture :: "GLuint \<Rightarrow> gl_state \<Rightarrow> gl_state" where
  "glBindTexture name g = g\<lparr> gl_binding2D := (gl_binding2D g)(gl_activeTexture g := name) \<rparr>"

definition glActiveTexture :: "int \<Rightarrow> gl_state \<Rightarrow> gl_state" where
  "glActiveTexture unit g = g\<lparr> gl_activeTexture := unit \<rparr>"

definition glTexParameteri :: "gl_param \<Rightarrow> gl_value \<Rightarrow> gl_state \<Rightarrow> gl_state" where
  "glTexParameteri pname v g = gl_update_bound (\<lambda>t. t\<lparr> tex_params := (pname, v) # tex_params t \<rparr>) g"

definition glTexImage2D :: "gl_format \<Rightarrow> int \<Rightarrow> int \<Rightarrow> gl_state \<Rightarrow> gl_state" where
  "glTexImage2D fmt w h g = gl_update_bound (\<lambda>t. t\<lparr> tex_image := Some (fmt, w, h) \<rparr>) g"

definition glGenerateMipmap :: "gl_state \<Rightarrow> gl_state" where
  "glGenerateMipmap g = gl_update_bound (\<lambda>t. t\<lparr> tex_mipmap := True \<rparr>) g"

definition glDeleteTextures :: "GLuint \<Rightarrow> gl_state \<Rightarrow> gl_state" where
  "glDeleteTextures name g =
     g\<lparr> gl_objects := (gl_objects g)(name := None),
        gl_binding2D := (\<lambda>unit. if gl_binding2D g unit = name then 0 else gl_binding2D g unit),
        gl_deleted := gl_deleted g @ [name] \<rparr>"

text \<open>A context in which no texture exists yet.\<close>

definition gl_initial :: gl_state where
  "gl_initial = \<lparr> gl_objects = (\<lambda>name. None), gl_activeTexture = 0,
                  gl_binding2D = (\<lambda>unit. 0), gl_deleted = [] \<rparr>"

text \<open>
  Modelled from the spec: the image decoder \<open>stbi_load\<close> (stb_image.h is not under src/).
  Its result is a parameter of \<open>CreateGLTexture\<close>: \<open>None\<close> for the null pointer, else the
  width, height and channel count it reports.
\<close>

record stbi_image =
  width :: int
  height :: int
  colorChannels :: int

section \<open>Texture registry\<close>

text \<open>
  \<open>bool CreateGLTexture(const char* filename, std::string tag)\<close>, with the decoder's
  result \<open>decoded\<close> and the name \<open>textureID\<close> that \<open>glGenTextures\<close> writes as parameters.
  The branch for an unsupported channel count returns before the texture is unbound and
  without deleting it. The pixels, their vertical flip and \<open>stbi_image_free\<close> are the
  decoder's own and are left out.
\<close>

definition CreateGLTexture ::
  "string \<Rightarrow> string \<Rightarrow> stbi_image option \<Rightarrow> GLuint \<Rightarrow> SceneManager \<Rightarrow> fault + (bool \<times> SceneManager)" where
  "CreateGLTexture filename tg decoded textureID s =
     (case decoded of
        Some img \<Rightarrow>
          let s1 = s\<lparr> cout := cout s @ [LoadedImage filename (width img) (height img) (colorChannels img)] \<rparr>;
              g1 = glBindTexture textureID (glGenTextures textureID (gl s1));
              g2 = glTexParameteri GL_TEXTURE_MAG_FILTER GL_LINEAR
                     (glTexParameteri GL_TEXTURE_MIN_FILTER GL_LINEAR
                       (glTexParameteri GL_TEXTURE_WRAP_T GL_REPEAT
                         (glTexParameteri GL_TEXTURE_WRAP_S GL_REPEAT g1)))
          in if colorChannels img = 3 \<or> colorChannels img = 4 then
               let g3 = (if colorChannels img = 3
                         then glTexImage2D GL_RGB8 (width img) (height img) g2
                         else glTexImage2D GL_RGBA8 (width img) (height img) g2);
                   g4 = glBindTexture 0 (glGenerateMipmap g3);
                   s2 = s1\<lparr> gl := g4 \<rparr>
               in if m_loadedTextures s2 < MAX_TEXTURES then
                    (if 0 \<le> m_loadedTextures s2 then
                       Inr (True, s2\<lparr> m_textureIDs := (m_textureIDs s2)
                                        [nat (m_loadedTextures s2) := \<lparr> TEXTURE_INFO.tag = tg, ID = textureID \<rparr>],
                                      m_loadedTextures := m_loadedTextures s2 + 1 \<rparr>)
                     else Inl (IndexOutOfBounds (m_loadedTextures s2)))
                  else Inr (False, s2\<lparr> cout := cout s2 @ [MaxTexturesLoaded filename],
                                       gl := glDeleteTextures textureID (gl s2) \<rparr>)
             else Inr (False, s1\<lparr> gl := g2, cout := cout s1 @ [UnsupportedChannels (colorChannels img)] \<rparr>)
      | None \<Rightarrow> Inr (False, s\<lparr> cout := cout s @ [CouldNotLoadImage filename] \<rparr>))"

text \<open>
  The loops over the registry read the members \<open>m_loadedTextures\<close> and \<open>m_textureIDs\<close>,
  which they do not change; these are the parameters \<open>n\<close> and \<open>ids\<close> of the loop
  functions. An index outside the array is a fault.

  \<open>BindGLTextures\<close>: \<open>for (int i = 0; i < m_loadedTextures; i++)\<close>, acting on the
  OpenGL context.
\<close>

function BindGLTextures_loop :: "int \<Rightarrow> TEXTURE_INFO list \<Rightarrow> int \<Rightarrow> gl_state \<Rightarrow> fault + gl_state" where
  "BindGLTextures_loop n ids i g =
     (if i < n then
        (if 0 \<le> i \<and> i < MAX_TEXTURES then
           BindGLTextures_loop n ids (i + 1) (glBindTexture (ID (ids ! nat i)) (glActiveTexture i g))
         else Inl (IndexOutOfBounds i))
      else Inr g)"
  by pat_completeness auto
termination
  by (relation "measure (\<lambda>(n, ids, i, g). nat (n - i))") auto

declare BindGLTextures_loop.simps [simp del]

definition BindGLTextures :: "SceneManager \<Rightarrow> fault + SceneManager" where
  "BindGLTextures s =
     (case BindGLTextures_loop (m_loadedTextures s) (m_textureIDs s) 0 (gl s) of
        Inl f \<Rightarrow> Inl f
      | Inr g \<Rightarrow> Inr (s\<lparr> gl := g \<rparr>))"

text \<open>\<open>DestroyGLTextures\<close>: the same loop with \<open>glDeleteTextures\<close>, then the count is reset.\<close>

function DestroyGLTextures_loop :: "int \<Rightarrow> TEXTURE_INFO list \<Rightarrow> int \<Rightarrow> gl_state \<Rightarrow> fault + gl_state" where
  "DestroyGLTextures_loop n ids i g =
     (if i < n then
        (if 0 \<le> i \<and> i < MAX_TEXTURES then
           DestroyGLTextures_loop n ids (i + 1) (glDeleteTextures (ID (ids ! nat i)) g)
         else Inl (IndexOutOfBounds i))
      else Inr g)"
  by pat_completeness auto
termination
  by (relation "measure (\<lambda>(n, ids, i, g). nat (n - i))") auto

declare DestroyGLTextures_loop.simps [simp del]

definition DestroyGLTextures :: "SceneManager \<Rightarrow> fault + SceneManager" where
  "DestroyGLTextures s =
     (case DestroyGLTextures_loop (m_loadedTextures s) (m_textureIDs s) 0 (gl s) of
        Inl f \<Rightarrow> Inl f
      | Inr g \<Rightarrow> Inr (s\<lparr> gl := g, m_loadedTextures := 0 \<rparr>))"

text \<open>
  \<open>FindTextureID\<close> and \<open>FindTextureSlot\<close>:
  \<open>while ((index < m_loadedTextures) && (bFound == false))\<close>. \<open>FindTextureID\<close> stores the
  \<open>uint32_t\<close> handle in an \<open>int\<close>, which \<open>sint\<close> reads.
\<close>

function FindTextureID_loop :: "string \<Rightarrow> int \<Rightarrow> TEXTURE_INFO list \<Rightarrow> int \<Rightarrow> bool \<Rightarrow> int \<Rightarrow> fault + int" where
  "FindTextureID_loop tg n ids index bFound textureID =
     (if index < n \<and> bFound = False then
        (if 0 \<le> index \<and> index < MAX_TEXTURES then
           (if TEXTURE_INFO.tag (ids ! nat index) = tg then
              FindTextureID_loop tg n ids index True (sint (ID (ids ! nat index)))
            else FindTextureID_loop tg n ids (index + 1) bFound textureID)
         else Inl (IndexOutOfBounds index))
      else Inr textureID)"
  by pat_completeness auto
termination
  by (relation "measure (\<lambda>(tg, n, ids, index, bFound, textureID).
        2 * nat (n - index) + (if bFound then 0 else 1))") auto

declare FindTextureID_loop.simps [simp del]

definition FindTextureID :: "string \<Rightarrow> SceneManager \<Rightarrow> fault + int" where
  "FindTextureID tg s = FindTextureID_loop tg (m_loadedTextures s) (m_textureIDs s) 0 False (- 1)"

function FindTextureSlot_loop :: "string \<Rightarrow> int \<Rightarrow> TEXTURE_INFO list \<Rightarrow> int \<Rightarrow> bool \<Rightarrow> int \<Rightarrow> fault + int" where
  "FindTextureSlot_loop tg n ids index bFound textureSlot =
     (if index < n \<and> bFound = False then
        (if 0 \<le> index \<and> index < MAX_TEXTURES then
           (if TEXTURE_INFO.tag (ids ! nat index) = tg then
              FindTextureSlot_loop tg n ids index True index
            else FindTextureSlot_loop tg n ids (index + 1) bFound textureSlot)
         else Inl (IndexOutOfBounds index))
      else Inr textureSlot)"
  by pat_completeness auto
termination
  by (relation "measure (\<lambda>(tg, n, ids, index, bFound, textureSlot).
        2 * nat (n - index) + (if bFound then 0 else 1))") auto

declare FindTextureSlot_loop.simps [simp del]

definition FindTextureSlot :: "string \<Rightarrow> SceneManager \<Rightarrow> fault + int" where
  "FindTextureSlot tg s = FindTextureSlot_loop tg (m_loadedTextures s) (m_textureIDs s) 0 False (- 1)"

text \<open>
  A run of \<open>CreateGLTexture\<close> calls, one per request (file name, tag, decoder result,
  name from \<open>glGenTextures\<close>), as \<open>LoadSceneTextures\<close> makes them; the results are
  collected.
\<close>

fun CreateGLTextures ::
  "(string \<times> string \<times> stbi_image option \<times> GLuint) list \<Rightarrow> SceneManager \<Rightarrow> fault + (bool list \<times> SceneManager)" where
  "CreateGLTextures [] s = Inr ([], s)"
| "CreateGLTextures ((filename, tg, decoded, textureID) # rest) s =
     (case CreateGLTexture filename tg decoded textureID s of
        Inl f \<Rightarrow> Inl f
      | Inr (b, s') \<Rightarrow>
          (case CreateGLTextures rest s' of
             Inl f \<Rightarrow> Inl f
           | Inr (bs, s'') \<Rightarrow> Inr (b # bs, s'')))"

text \<open>The tag and the texture name of a request.\<close>

definition request_tag :: "string \<times> string \<times> stbi_image option \<times> GLuint \<Rightarrow> string" where
  "request_tag r = fst (snd r)"

definition request_ID :: "string \<times> string \<times> stbi_image option \<times> GLuint \<Rightarrow> GLuint" where
  "request_ID r = snd (snd (snd r))"


text \<open>The registry is well formed: the count is within the array, which has its fixed size.\<close>

definition registry_ok :: "SceneManager \<Rightarrow> bool" where
  "registry_ok s \<longleftrightarrow>
     0 \<le> m_loadedTextures s \<and> m_loadedTextures s \<le> MAX_TEXTURES \<and>
     length (m_textureIDs s) = nat MAX_TEXTURES"

text \<open>The registered entries: the first \<open>m_loadedTextures\<close> elements of the array.\<close>

definition registered :: "SceneManager \<Rightarrow> TEXTURE_INFO list" where
  "registered s = take (nat (m_loadedTextures s)) (m_textureIDs s)"

section \<open>Shading state publisher\<close>

text \<open>
  \<open>SetTransformations\<close>: the model matrix is the product
  \<open>translation * rotationZ * rotationY * rotationX * scale\<close>, written to the uniform
  \<open>model\<close> when the shader manager is not null.
\<close>

definition SetTransformations ::
  "vec3 \<Rightarrow> real \<Rightarrow> real \<Rightarrow> real \<Rightarrow> vec3 \<Rightarrow> vec3 \<Rightarrow> SceneManager \<Rightarrow> SceneManager" where
  "SetTransformations scaleXYZ XrotationDegrees YrotationDegrees ZrotationDegrees positionXYZ offset s =
     (let scale = glm_scale scaleXYZ;
          rotationX = glm_rotate (glm_radians XrotationDegrees) (vec3 1 0 0);
          rotationY = glm_rotate (glm_radians YrotationDegrees) (vec3 0 1 0);
          rotationZ = glm_rotate (glm_radians ZrotationDegrees) (vec3 0 0 1);
          translation = glm_translate (positionXYZ + offset);
          modelView = translation * rotationZ * rotationY * rotationX * scale
      in case m_pShaderManager s of
           None \<Rightarrow> s
         | Some sh \<Rightarrow> s\<lparr> m_pShaderManager := Some (setUniform ''model'' (Mat4Value modelView) sh) \<rparr>)"

text \<open>\<open>SetShaderColor\<close>: \<open>setIntValue(g_UseTextureName, false)\<close> writes the integer 0.\<close>

definition SetShaderColor :: "real \<Rightarrow> real \<Rightarrow> real \<Rightarrow> real \<Rightarrow> SceneManager \<Rightarrow> SceneManager" where
  "SetShaderColor redColorValue greenColorValue blueColorValue alphaValue s =
     (let currentColor = vec4 redColorValue greenColorValue blueColorValue alphaValue
      in case m_pShaderManager s of
           None \<Rightarrow> s
         | Some sh \<Rightarrow> s\<lparr> m_pShaderManager := Some
             (setUniform ''objectColor'' (Vec4Value currentColor)
               (setUniform ''bUseTexture'' (IntValue 0) sh)) \<rparr>)"

definition SetShaderTexture :: "string \<Rightarrow> SceneManager \<Rightarrow> fault + SceneManager" where
  "SetShaderTexture textureTag s =
     (case m_pShaderManager s of
        None \<Rightarrow> Inr s
      | Some sh \<Rightarrow>
          (let sh1 = setUniform ''bUseTexture'' (IntValue 1) sh
           in (case FindTextureSlot textureTag s of
                 Inl f \<Rightarrow> Inl f
               | Inr textureID \<Rightarrow>
                   (if textureID \<noteq> - 1 then
                      Inr (s\<lparr> m_pShaderManager := Some
                        (setUniform ''objectTexture'' (Sampler2DValue textureID) sh1) \<rparr>)
                    else
                      Inr (s\<lparr> cout := cout s @ [TextureNotFound textureTag],
                             m_pShaderManager := Some (setUniform ''bUseTexture'' (IntValue 0) sh1) \<rparr>)))))"

definition SetTextureUVScale :: "real \<Rightarrow> real \<Rightarrow> SceneManager \<Rightarrow> SceneManager" where
  "SetTextureUVScale u v s =
     (case m_pShaderManager s of
        None \<Rightarrow> s
      | Some sh \<Rightarrow> s\<lparr> m_pShaderManager := Some (setUniform ''UVscale'' (Vec2Value (vec2 u v)) sh) \<rparr>)"

text \<open>
  \<open>SetShaderMaterial\<close>. The local \<open>OBJECT_MATERIAL material\<close> is not initialised; what
  it holds when \<open>FindMaterial\<close> is called is the parameter \<open>uninit\<close>. The three uniform
  writes go through \<open>m_pShaderManager\<close> with no test for null.
\<close>

definition SetShaderMaterial :: "string \<Rightarrow> OBJECT_MATERIAL \<Rightarrow> SceneManager \<Rightarrow> fault + SceneManager" where
  "SetShaderMaterial materialTag uninit s =
     (if length (m_objectMaterials s) > 0 then
        (case FindMaterial materialTag uninit s of
           (bReturn, material) \<Rightarrow>
             if bReturn = True then
               (case m_pShaderManager s of
                  None \<Rightarrow> Inl NullPointerDereference
                | Some sh \<Rightarrow> Inr (s\<lparr> m_pShaderManager := Some
                    (setUniform ''material.shininess'' (FloatValue (shininess material))
                      (setUniform ''material.specularColor'' (Vec3Value (specularColor material))
                        (setUniform ''material.diffuseColor'' (Vec3Value (diffuseColor material)) sh))) \<rparr>))
             else Inr (s\<lparr> cout := cout s @ [MaterialNotFound materialTag] \<rparr>))
      else Inr s)"

section \<open>Scene composer\<close>

text \<open>The draw calls on \<open>m_basicMeshes\<close>.\<close>

definition DrawPlaneMesh :: "SceneManager \<Rightarrow> SceneManager" where
  "DrawPlaneMesh s = s\<lparr> m_basicMeshes := m_basicMeshes s @ [DrawMesh Plane] \<rparr>"

definition DrawBoxMesh :: "SceneManager \<Rightarrow> SceneManager" where
  "DrawBoxMesh s = s\<lparr> m_basicMeshes := m_basicMeshes s @ [DrawMesh Box] \<rparr>"

definition DrawConeMesh :: "SceneManager \<Rightarrow> SceneManager" where
  "DrawConeMesh s = s\<lparr> m_basicMeshes := m_basicMeshes s @ [DrawMesh Cone] \<rparr>"

definition DrawSphereMesh :: "SceneManager \<Rightarrow> SceneManager" where
  "DrawSphereMesh s = s\<lparr> m_basicMeshes := m_basicMeshes s @ [DrawMesh Sphere] \<rparr>"

definition DrawCylinderMesh :: "SceneManager \<Rightarrow> SceneManager" where
  "DrawCylinderMesh s = s\<lparr> m_basicMeshes := m_basicMeshes s @ [DrawMesh Cylinder] \<rparr>"

text \<open>
  A method body is the list of its calls, run in order; a fault ends the run.
  \<open>ok\<close> wraps a call that cannot fault.
\<close>

type_synonym call = "SceneManager \<Rightarrow> fault + SceneManager"

definition ok :: "(SceneManager \<Rightarrow> SceneManager) \<Rightarrow> call" where
  "ok f s = Inr (f s)"

fun seq :: "call list \<Rightarrow> call" where
  "seq [] s = Inr s"
| "seq (f # fs) s = (case f s of Inl e \<Rightarrow> Inl e | Inr s' \<Rightarrow> seq fs s')"

text \<open>
  \<open>LoadSceneTextures\<close>: seven calls of \<open>CreateGLTexture\<close>, whose results are not looked
  at, then \<open>BindGLTextures\<close>. \<open>stbi_load\<close> gives what the decoder returns for a file name
  and \<open>names k\<close> the name \<open>glGenTextures\<close> hands out in the \<open>k\<close>-th call.
\<close>

definition LoadSceneTextures :: "(string \<Rightarrow> stbi_image option) \<Rightarrow> (nat \<Rightarrow> GLuint) \<Rightarrow> call" where
  "LoadSceneTextures stbi_load names s =
     (case CreateGLTextures
        [ (''textures/wooden.jpg'', ''wooden'', stbi_load ''textures/wooden.jpg'', names 0),
          (''textures/vase.jpg'', ''vase'', stbi_load ''textures/vase.jpg'', names 1),
          (''textures/table.jpg'', ''table'', stbi_load ''textures/table.jpg'', names 2),
          (''textures/stand.jpg'', ''stand'', stbi_load ''textures/stand.jpg'', names 3),
          (''textures/neck.jpg'', ''neck'', stbi_load ''textures/neck.jpg'', names 4),
          (''textures/book_cover.jpg'', ''bookcover_tex'', stbi_load ''textures/book_cover.jpg'', names 5),
          (''textures/window_frame_tex.jpg'', ''window_frame_tex'',
             stbi_load ''textures/window_frame_tex.jpg'', names 6) ] s of
        Inl f \<Rightarrow> Inl f
      | Inr (bs, s') \<Rightarrow> BindGLTextures s')"

text \<open>
  \<open>SetupSceneLights\<close>: the uniform writes of the light rig, in order, all through
  \<open>m_pShaderManager\<close> with no test for null.
\<close>

definition SetupSceneLights :: call where
  "SetupSceneLights s =
     (case m_pShaderManager s of
        None \<Rightarrow> Inl NullPointerDereference
      | Some sh \<Rightarrow> Inr (s\<lparr> m_pShaderManager := Some (fold (\<lambda>(name, v). setUniform name v)
          [ (''bUseLighting'', BoolValue True),
            (''directionalLight.direction'', Vec3Value (vec3 0.8 (- 0.6) (- 0.4))),
            (''directionalLight.ambient'', Vec3Value (vec3 0.1 0.1 0.1)),
            (''directionalLight.diffuse'', Vec3Value (vec3 0.9 0.9 0.8)),
            (''directionalLight.specular'', Vec3Value (vec3 1.0 1.0 1.0)),
            (''directionalLight.bActive'', BoolValue True),
            (''spotLight.direction'', Vec3Value (vec3 0.0 (- 1.0) (- 0.2))),
            (''spotLight.ambient'', Vec3Value (vec3 0.5 0.5 0.5)),
            (''spotLight.diffuse'', Vec3Value (vec3 0.9 0.9 0.9)),
            (''spotLight.specular'', Vec3Value (vec3 0.6 0.6 0.6)),
            (''spotLight.constant'', FloatValue 1.0),
            (''spotLight.linear'', FloatValue 0.07),
            (''spotLight.quadratic'', FloatValue 0.017),
            (''spotLight.cutOff'', FloatValue (cos (glm_radians 12.0))),
            (''spotLight.outerCutOff'', FloatValue (cos (glm_radians 15.0))),
            (''spotLight.bActive'', BoolValue True),
            (''pointLights[0].position'', Vec3Value (vec3 (- 4.0) 1.5 2.5)),
            (''pointLights[0].ambient'', Vec3Value (vec3 0.05 0.05 0.05)),
            (''pointLights[0].diffuse'', Vec3Value (vec3 0.6 0.6 0.6)),
            (''pointLights[0].specular'', Vec3Value (vec3 0.8 0.8 0.8)),
            (''pointLights[0].constant'', FloatValue 1.0),
            (''pointLights[0].linear'', FloatValue 0.09),
            (''pointLights[0].quadratic'', FloatValue 0.032),
            (''pointLights[0].bActive'', BoolValue True),
            (''pointLights[1].position'', Vec3Value (vec3 4.0 1.0 (- 2.0))),
            (''pointLights[1].ambient'', Vec3Value (vec3 0.02 0.01 0.01)),
            (''pointLights[1].diffuse'', Vec3Value (vec3 0.5 0.2 0.2)),
            (''pointLights[1].specular'', Vec3Value (vec3 0.6 0.3 0.3)),
            (''pointLights[1].constant'', FloatValue 1.0),
            (''pointLights[1].linear'', FloatValue 0.1),
            (''pointLights[1].quadratic'', FloatValue 0.05),
            (''pointLights[1].bActive'', BoolValue True) ] sh) \<rparr>))"

text \<open>The load calls on \<open>m_basicMeshes\<close>, and \<open>PrepareScene\<close>.\<close>

definition LoadPlaneMesh :: "SceneManager \<Rightarrow> SceneManager" where
  "LoadPlaneMesh s = s\<lparr> m_basicMeshes := m_basicMeshes s @ [LoadMesh Plane] \<rparr>"

definition LoadBoxMesh :: "SceneManager \<Rightarrow> SceneManager" where
  "LoadBoxMesh s = s\<lparr> m_basicMeshes := m_basicMeshes s @ [LoadMesh Box] \<rparr>"

definition LoadConeMesh :: "SceneManager \<Rightarrow> SceneManager" where
  "LoadConeMesh s = s\<lparr> m_basicMeshes := m_basicMeshes s @ [LoadMesh Cone] \<rparr>"

definition LoadSphereMesh :: "SceneManager \<Rightarrow> SceneManager" where
  "LoadSphereMesh s = s\<lparr> m_basicMeshes := m_basicMeshes s @ [LoadMesh Sphere] \<rparr>"

definition LoadCylinderMesh :: "SceneManager \<Rightarrow> SceneManager" where
  "LoadCylinderMesh s = s\<lparr> m_basicMeshes := m_basicMeshes s @ [LoadMesh Cylinder] \<rparr>"

definition PrepareScene :: "(string \<Rightarrow> stbi_image option) \<Rightarrow> (nat \<Rightarrow> GLuint) \<Rightarrow> call" where
  "PrepareScene stbi_load names =
     seq [ LoadSceneTextures stbi_load names,
           ok DefineObjectMaterials,
           SetupSceneLights,
           ok LoadPlaneMesh,
           ok LoadBoxMesh,
           ok LoadConeMesh,
           ok LoadSphereMesh,
           ok LoadCylinderMesh ]"

text \<open>
  \<open>RenderScene\<close>, in the six parts its comments name: the table, lamp 1, lamp 2, the
  books, the jar, and the window with the outside view. Every call of \<open>SetTransformations\<close>
  leaves the offset at its default \<open>glm::vec3(0.0f, 0.0f, 0.0f)\<close>. \<open>uninit\<close> is the content
  of the uninitialised local of \<open>SetShaderMaterial\<close>.
\<close>

definition RenderScene_table :: "OBJECT_MATERIAL \<Rightarrow> call list" where
  "RenderScene_table uninit =
     [ ok (SetTransformations (vec3 10 0.1 5) 0 0 0 (vec3 0 0 0) (vec3 0 0 0)),
       SetShaderTexture ''table'',
       SetShaderMaterial ''tableSurface'' uninit,
       ok (SetTextureUVScale 2 1),
       ok DrawPlaneMesh ]"

definition RenderScene_lamp1 :: "OBJECT_MATERIAL \<Rightarrow> call list" where
  "RenderScene_lamp1 uninit =
     (let basePos = vec3 (- 3) 0.05 0
      in [ ok (SetTransformations (vec3 1.8 0.3 1.8) 0 45 0 (basePos) (vec3 0 0 0)),
         SetShaderTexture ''stand'',
         SetShaderMaterial ''lampbase'' uninit,
         ok DrawBoxMesh,
         ok (SetTransformations (vec3 1.3 0.4 1.3) 0 0 0 (basePos + vec3 0 0.3 0) (vec3 0 0 0)),
         SetShaderMaterial ''lampbase'' uninit,
         ok DrawCylinderMesh,
         ok (SetTransformations (vec3 1.5 0.5 1.5) 0 0 180 (basePos + vec3 0 0.7 0) (vec3 0 0 0)),
         SetShaderMaterial ''lampbase'' uninit,
         ok DrawConeMesh,
         ok (SetTransformations (vec3 1.1 1.0 1.1) 0 0 0 (basePos + vec3 0 1.3 0) (vec3 0 0 0)),
         SetShaderTexture ''neck'',
         SetShaderMaterial ''lampbase'' uninit,
         ok DrawCylinderMesh,
         ok (SetTransformations (vec3 1.0 0.5 1.0) 0 0 0 (basePos + vec3 0 2.3 0) (vec3 0 0 0)),
         SetShaderMaterial ''lampbase'' uninit,
         ok DrawSphereMesh,
         ok (SetTransformations (vec3 0.9 1.2 0.9) 0 0 0 (basePos + vec3 0 3.0 0) (vec3 0 0 0)),
         SetShaderMaterial ''lampbase'' uninit,
         ok DrawCylinderMesh,
         ok (SetTransformations (vec3 0.8 0.4 0.8) 0 0 0 (basePos + vec3 0 4.2 0) (vec3 0 0 0)),
         SetShaderMaterial ''lampbase'' uninit,
         ok DrawSphereMesh,
         ok (SetTransformations (vec3 0.4 3.0 0.4) 0 0 0 (basePos + vec3 0 5.0 0) (vec3 0 0 0)),
         SetShaderTexture ''wooden'',
         SetShaderMaterial ''wood'' uninit,
         ok DrawCylinderMesh,
         ok (SetTransformations (vec3 2.5 2.5 2.5) 0 0 0 (basePos + vec3 0 8.0 0) (vec3 0 0 0)),
         SetShaderMaterial ''lampshade'' uninit,
         ok DrawConeMesh,
         ok (SetTransformations (vec3 0.3 0.3 0.3) 0 0 0 (basePos + vec3 0 10.5 0) (vec3 0 0 0)),
         SetShaderMaterial ''metal'' uninit,
         ok DrawSphereMesh ])"

definition RenderScene_lamp2 :: "OBJECT_MATERIAL \<Rightarrow> call list" where
  "RenderScene_lamp2 uninit =
     (let basePos = vec3 3 0.05 0
      in [ ok (SetTransformations (vec3 1.8 0.3 1.8) 0 45 0 (basePos) (vec3 0 0 0)),
         SetShaderTexture ''stand'',
         SetShaderMaterial ''lampbase'' uninit,
         ok DrawBoxMesh,
         ok (SetTransformations (vec3 1.3 0.4 1.3) 0 0 0 (basePos + vec3 0 0.3 0) (vec3 0 0 0)),
         SetShaderMaterial ''lampbase'' uninit,
         ok DrawCylinderMesh,
         ok (SetTransformations (vec3 1.5 0.5 1.5) 0 0 180 (basePos + vec3 0 0.7 0) (vec3 0 0 0)),
         SetShaderMaterial ''lampbase'' uninit,
         ok DrawConeMesh,
         ok (SetTransformations (vec3 1.1 1.0 1.1) 0 0 0 (basePos + vec3 0 1.3 0) (vec3 0 0 0)),
         SetShaderTexture ''neck'',
         SetShaderMaterial ''lampbase'' uninit,
         ok DrawCylinderMesh,
         ok (SetTransformations (vec3 1.0 0.5 1.0) 0 0 0 (basePos + vec3 0 2.3 0) (vec3 0 0 0)),
         SetShaderMaterial ''lampbase'' uninit,
         ok DrawSphereMesh,
         ok (SetTransformations (vec3 0.9 1.2 0.9) 0 0 0 (basePos + vec3 0 3.0 0) (vec3 0 0 0)),
         SetShaderMaterial ''lampbase'' uninit,
         ok DrawCylinderMesh,
         ok (SetTransformations (vec3 0.8 0.4 0.8) 0 0 0 (basePos + vec3 0 4.2 0) (vec3 0 0 0)),
         SetShaderMaterial ''lampbase'' uninit,
         ok DrawSphereMesh,
         ok (SetTransformations (vec3 0.4 3.0 0.4) 0 0 0 (basePos + vec3 0 5.0 0) (vec3 0 0 0)),
         SetShaderTexture ''wooden'',
         SetShaderMaterial ''wood'' uninit,
         ok DrawCylinderMesh,
         ok (SetTransformations (vec3 2.5 2.5 2.5) 0 0 0 (basePos + vec3 0 8.0 0) (vec3 0 0 0)),
         SetShaderMaterial ''lampshade'' uninit,
         ok DrawConeMesh,
         ok (SetTransformations (vec3 0.3 0.3 0.3) 0 0 0 (basePos + vec3 0 10.5 0) (vec3 0 0 0)),
         SetShaderMaterial ''metal'' uninit,
         ok DrawSphereMesh ])"

definition RenderScene_books :: "OBJECT_MATERIAL \<Rightarrow> call list" where
  "RenderScene_books uninit =
     [ ok (SetTransformations (vec3 2.8 0.15 2.0) 0 0 0 (vec3 0 0.05 0) (vec3 0 0 0)),
       SetShaderTexture ''bookcover_tex'',
       SetShaderMaterial ''bookcover'' uninit,
       ok (SetTextureUVScale 1 1),
       ok DrawBoxMesh,
       ok (SetTransformations (vec3 2.6 0.12 1.9) 0 5 0 (vec3 0 0.21 0) (vec3 0 0 0)),
       SetShaderTexture ''bookcover_tex'',
       SetShaderMaterial ''bookcover'' uninit,
       ok (SetTextureUVScale 1 1),
       ok DrawBoxMesh ]"

definition RenderScene_jar :: "OBJECT_MATERIAL \<Rightarrow> call list" where
  "RenderScene_jar uninit =
     (let jarPos = vec3 0 0.36 0
      in [ ok (SetTransformations (vec3 0.8 0.6 0.8) 0 0 0 (jarPos) (vec3 0 0 0)),
         SetShaderTexture ''vase'',
         SetShaderMaterial ''jar'' uninit,
         ok (SetTextureUVScale 1 1),
         ok DrawCylinderMesh,
         ok (SetTransformations (vec3 0.9 0.9 0.9) 0 0 0 (jarPos + vec3 0 0.6 0) (vec3 0 0 0)),
         SetShaderTexture ''vase'',
         SetShaderMaterial ''jar'' uninit,
         ok (SetTextureUVScale 1 1),
         ok DrawSphereMesh,
         ok (SetTransformations (vec3 0.5 0.4 0.5) 0 0 0 (jarPos + vec3 0 1.5 0) (vec3 0 0 0)),
         SetShaderMaterial ''jar'' uninit,
         ok DrawCylinderMesh,
         ok (SetTransformations (vec3 0.7 0.3 0.7) 0 0 0 (jarPos + vec3 0 1.9 0) (vec3 0 0 0)),
         SetShaderMaterial ''jar'' uninit,
         ok DrawSphereMesh,
         ok (SetTransformations (vec3 0.2 0.2 0.2) 0 0 0 (jarPos + vec3 0 2.1 0) (vec3 0 0 0)),
         SetShaderMaterial ''jar'' uninit,
         ok DrawSphereMesh ])"

definition RenderScene_window :: "OBJECT_MATERIAL \<Rightarrow> call list" where
  "RenderScene_window uninit =
     (let outsidePos = vec3 0 5 (- 5);
          windowFramePos = vec3 0 5 (- 4.9);
          windowPanePos = vec3 0 5 (- 4.8)
      in [ ok (SetTransformations (vec3 15 10 0.1) 0 0 0 (outsidePos) (vec3 0 0 0)),
         SetShaderMaterial ''tile'' uninit,
         ok (SetTextureUVScale 1 1),
         ok DrawPlaneMesh,
         SetShaderMaterial ''windowFrame'' uninit,
         ok (SetTransformations (vec3 7.5 0.3 0.1) 0 0 0 (windowFramePos + vec3 0 4.15 0) (vec3 0 0 0)),
         SetShaderTexture ''window_frame_tex'',
         ok (SetTextureUVScale 1 1),
         ok DrawBoxMesh,
         ok (SetTransformations (vec3 7.5 0.3 0.1) 0 0 0 (windowFramePos + vec3 0 (- 4.15) 0) (vec3 0 0 0)),
         SetShaderTexture ''window_frame_tex'',
         ok (SetTextureUVScale 1 1),
         ok DrawBoxMesh,
         ok (SetTransformations (vec3 0.3 8.5 0.1) 0 0 0 (windowFramePos + vec3 (- 3.6) 0 0) (vec3 0 0 0)),
         SetShaderTexture ''window_frame_tex'',
         ok (SetTextureUVScale 1 1),
         ok DrawBoxMesh,
         ok (SetTransformations (vec3 0.3 8.5 0.1) 0 0 0 (windowFramePos + vec3 3.6 0 0) (vec3 0 0 0)),
         ok (SetTextureUVScale 1 1),
         ok DrawBoxMesh,
         ok (SetTransformations (vec3 0.15 8.3 0.1) 0 0 0 (windowFramePos + vec3 0 0 0) (vec3 0 0 0)),
         ok (SetTextureUVScale 1 1),
         ok DrawBoxMesh,
         ok (SetTextureUVScale 1 1),
         ok (SetTransformations (vec3 100.4 100.2 0.05) 0 0 0 (windowPanePos + vec3 (- 1.8) 0 0) (vec3 0 0 0)),
         ok (SetTextureUVScale 1 1),
         ok DrawPlaneMesh,
         ok (SetTransformations (vec3 100.4 100.2 0.05) 0 0 0 (windowPanePos + vec3 1.8 0 0) (vec3 0 0 0)),
         ok (SetTextureUVScale 1 1),
         ok DrawPlaneMesh ])"

definition RenderScene :: "OBJECT_MATERIAL \<Rightarrow> call" where
  "RenderScene uninit =
     seq (RenderScene_table uninit @ RenderScene_lamp1 uninit @ RenderScene_lamp2 uninit @
          RenderScene_books uninit @ RenderScene_jar uninit @ RenderScene_window uninit)"


section \<open>Notions the claims are stated with\<close>

text \<open>The value a uniform currently has in the shader the scene manager points to.\<close>

definition published :: "SceneManager \<Rightarrow> string \<Rightarrow> uniform option" where
  "published s name = (case m_pShaderManager s of None \<Rightarrow> None | Some sh \<Rightarrow> uniformValue sh name)"

text \<open>
  The matrices the spec names for the Transform Builder, as the columns of the textbook
  matrices for angles in radians, and what each transformation does to a point in
  homogeneous coordinates.
\<close>

definition spec_Scale :: "vec3 \<Rightarrow> mat4" where
  "spec_Scale s = (case s of vec3 sx sy sz \<Rightarrow>
     mat4 (vec4 sx 0 0 0) (vec4 0 sy 0 0) (vec4 0 0 sz 0) (vec4 0 0 0 1))"

definition spec_RotateX :: "real \<Rightarrow> mat4" where
  "spec_RotateX a = mat4 (vec4 1 0 0 0) (vec4 0 (cos a) (sin a) 0) (vec4 0 (- sin a) (cos a) 0) (vec4 0 0 0 1)"

definition spec_RotateY :: "real \<Rightarrow> mat4" where
  "spec_RotateY a = mat4 (vec4 (cos a) 0 (- sin a) 0) (vec4 0 1 0 0) (vec4 (sin a) 0 (cos a) 0) (vec4 0 0 0 1)"

definition spec_RotateZ :: "real \<Rightarrow> mat4" where
  "spec_RotateZ a = mat4 (vec4 (cos a) (sin a) 0 0) (vec4 (- sin a) (cos a) 0 0) (vec4 0 0 1 0) (vec4 0 0 0 1)"

definition spec_Translate :: "vec3 \<Rightarrow> mat4" where
  "spec_Translate t = (case t of vec3 tx ty tz \<Rightarrow>
     mat4 (vec4 1 0 0 0) (vec4 0 1 0 0) (vec4 0 0 1 0) (vec4 tx ty tz 1))"

definition scale_point :: "vec3 \<Rightarrow> vec4 \<Rightarrow> vec4" where
  "scale_point s p = (case (s, p) of (vec3 sx sy sz, vec4 x y z w) \<Rightarrow> vec4 (sx * x) (sy * y) (sz * z) w)"

definition rotateX_point :: "real \<Rightarrow> vec4 \<Rightarrow> vec4" where
  "rotateX_point a p = (case p of vec4 x y z w \<Rightarrow>
     vec4 x (cos a * y - sin a * z) (sin a * y + cos a * z) w)"

definition rotateY_point :: "real \<Rightarrow> vec4 \<Rightarrow> vec4" where
  "rotateY_point a p = (case p of vec4 x y z w \<Rightarrow>
     vec4 (cos a * x + sin a * z) y (cos a * z - sin a * x) w)"

definition rotateZ_point :: "real \<Rightarrow> vec4 \<Rightarrow> vec4" where
  "rotateZ_point a p = (case p of vec4 x y z w \<Rightarrow>
     vec4 (cos a * x - sin a * y) (sin a * x + cos a * y) z w)"

definition translate_point :: "vec3 \<Rightarrow> vec4 \<Rightarrow> vec4" where
  "translate_point t p = (case (t, p) of (vec3 tx ty tz, vec4 x y z w) \<Rightarrow>
     vec4 (x + tx * w) (y + ty * w) (z + tz * w) w)"

text \<open>
  A state in which a frame can be rendered: the shader manager is not null and the
  registry count is within the array.
\<close>

definition frame_ready :: "SceneManager \<Rightarrow> bool" where
  "frame_ready s \<longleftrightarrow> m_pShaderManager s \<noteq> None \<and> m_loadedTextures s \<le> MAX_TEXTURES"

text \<open>
  From every such state, the calls run without a fault, end in such a state and issue
  draw commands for the primitives \<open>ps\<close>, in this order, and no other mesh call.
\<close>

definition issues :: "call list \<Rightarrow> primitive list \<Rightarrow> bool" where
  "issues calls ps \<longleftrightarrow>
     (\<forall>s. frame_ready s \<longrightarrow>
        (\<exists>s'. seq calls s = Inr s' \<and> frame_ready s' \<and>
              m_basicMeshes s' = m_basicMeshes s @ map DrawMesh ps))"

text \<open>The mesh calls a run of calls adds, \<open>None\<close> when it faults; those of one frame.\<close>

definition block_draws :: "call list \<Rightarrow> SceneManager \<Rightarrow> mesh_call list option" where
  "block_draws calls s =
     (case seq calls s of
        Inl f \<Rightarrow> None
      | Inr s' \<Rightarrow> Some (drop (length (m_basicMeshes s)) (m_basicMeshes s')))"

definition frame_draws :: "OBJECT_MATERIAL \<Rightarrow> SceneManager \<Rightarrow> mesh_call list option" where
  "frame_draws uninit s =
     (case RenderScene uninit s of
        Inl f \<Rightarrow> None
      | Inr s' \<Rightarrow> Some (drop (length (m_basicMeshes s)) (m_basicMeshes s')))"

text \<open>The primitives of one lamp, in the order \<open>RenderScene\<close> draws them.\<close>

definition lamp_primitives :: "primitive list" where
  "lamp_primitives = [Box, Cylinder, Cone, Cylinder, Sphere, Cylinder, Sphere, Cylinder, Cone, Sphere]"

section \<open>Example states\<close>

text \<open>Concrete inputs on which the theorems below are instantiated.\<close>

definition black :: OBJECT_MATERIAL where
  "black = \<lparr> diffuseColor = vec3 0 0 0, specularColor = vec3 0 0 0, shininess = 0, tag = [] \<rparr>"

definition rgb_image :: stbi_image where
  "rgb_image = \<lparr> width = 1024, height = 1024, colorChannels = 3 \<rparr>"

text \<open>A scene manager as the constructor leaves it, in a context without textures.\<close>

definition new_manager :: "ShaderManager option \<Rightarrow> SceneManager" where
  "new_manager p = SceneManager_ctor p (\<lambda>i. 0) gl_initial"

definition abc_requests :: "(string \<times> string \<times> stbi_image option \<times> GLuint) list" where
  "abc_requests =
     [(''a.jpg'', ''a'', Some rgb_image, 7), (''b.jpg'', ''b'', Some rgb_image, 8),
      (''c.jpg'', ''c'', Some rgb_image, 9)]"

definition sixteen_requests :: "(string \<times> string \<times> stbi_image option \<times> GLuint) list" where
  "sixteen_requests = map (\<lambda>(tg, name). (''textures/'' @ tg @ ''.jpg'', tg, Some rgb_image, name))
     [(''a'', 1), (''b'', 2), (''c'', 3), (''d'', 4), (''e'', 5), (''f'', 6), (''g'', 7), (''h'', 8),
      (''i'', 9), (''j'', 10), (''k'', 11), (''l'', 12), (''m'', 13), (''n'', 14), (''o'', 15), (''p'', 16)]"

text \<open>The state after a run of registrations.\<close>

definition loaded :: "(string \<times> string \<times> stbi_image option \<times> GLuint) list \<Rightarrow> SceneManager \<Rightarrow> SceneManager" where
  "loaded reqs s = (case CreateGLTextures reqs s of Inl f \<Rightarrow> s | Inr (bs, s') \<Rightarrow> s')"

text \<open>
  A decoded image with one channel, and the state after loading it into the registry
  filled by the sixteen requests, under the texture name 17.
\<close>

definition grey_image :: stbi_image where
  "grey_image = \<lparr> width = 1024, height = 1024, colorChannels = 1 \<rparr>"

definition grey_at_capacity :: SceneManager where
  "grey_at_capacity =
     (case CreateGLTexture ''textures/grey.jpg'' ''grey'' (Some grey_image) 17
             (loaded sixteen_requests (new_manager None)) of
        Inl f \<Rightarrow> new_manager None
      | Inr (b, s') \<Rightarrow> s')"

text \<open>
  The state after \<open>SetShaderMaterial("wood")\<close> on a manager with the catalog defined and a
  shader that has received nothing yet.
\<close>

definition wood_published :: SceneManager where
  "wood_published =
     (case SetShaderMaterial ''wood'' black (DefineObjectMaterials (new_manager (Some []))) of
        Inl f \<Rightarrow> new_manager None
      | Inr s \<Rightarrow> s)"

text \<open>
  The reference scene: \<open>PrepareScene\<close> on a new manager, with every image decoded as RGB
  and the texture names 1, 2, 3 and so on.
\<close>

definition all_decoded :: "string \<Rightarrow> stbi_image option" where
  "all_decoded filename = Some rgb_image"

definition names_from_one :: "nat \<Rightarrow> GLuint" where
  "names_from_one k = of_nat (k + 1)"

definition prepared_scene :: SceneManager where
  "prepared_scene =
     (case PrepareScene all_decoded names_from_one (new_manager (Some [])) of
        Inl f \<Rightarrow> new_manager None
      | Inr s \<Rightarrow> s)"

section \<open>Properties of the material catalog\<close>

lemma FindMaterial_loop_found [simp]:
  "FindMaterial_loop tg ms index True material = material"
  by (simp add: FindMaterial_loop.simps)

lemma FindMaterial_loop_absent:
  "\<forall>m \<in> set ms. OBJECT_MATERIAL.tag m \<noteq> tg \<Longrightarrow>
   FindMaterial_loop tg ms index False material = material"
proof (induction tg ms index "False" material rule: FindMaterial_loop.induct)
  case (1 tg ms index material)
  show ?case
  proof (cases "0 \<le> index \<and> index < int (length ms)")
    case True
    then have "ms ! nat index \<in> set ms" by (auto intro!: nth_mem)
    with 1 True show ?thesis
      by (subst FindMaterial_loop.simps) auto
  next
    case False
    then show ?thesis by (subst FindMaterial_loop.simps) auto
  qed
qed

section \<open>Properties of the texture registry\<close>

lemma FindTextureSlot_loop_found [simp]:
  "FindTextureSlot_loop tg n ids index True r = Inr r"
  by (simp add: FindTextureSlot_loop.simps)

lemma FindTextureSlot_loop_absent:
  "0 \<le> index \<Longrightarrow> n \<le> MAX_TEXTURES \<Longrightarrow>
   \<forall>j. index \<le> j \<and> j < n \<longrightarrow> TEXTURE_INFO.tag (ids ! nat j) \<noteq> tg \<Longrightarrow>
   FindTextureSlot_loop tg n ids index False r = Inr r"
proof (induction tg n ids index "False" r rule: FindTextureSlot_loop.induct)
  case (1 tg n ids index r)
  show ?case
  proof (cases "index < n")
    case True
    with 1 show ?thesis
      by (subst FindTextureSlot_loop.simps) auto
  next
    case False
    then show ?thesis by (subst FindTextureSlot_loop.simps) auto
  qed
qed

lemma FindTextureSlot_loop_first:
  "0 \<le> index \<Longrightarrow> n \<le> MAX_TEXTURES \<Longrightarrow> index \<le> k \<Longrightarrow> k < n \<Longrightarrow>
   TEXTURE_INFO.tag (ids ! nat k) = tg \<Longrightarrow>
   \<forall>j. index \<le> j \<and> j < k \<longrightarrow> TEXTURE_INFO.tag (ids ! nat j) \<noteq> tg \<Longrightarrow>
   FindTextureSlot_loop tg n ids index False r = Inr k"
proof (induction tg n ids index "False" r rule: FindTextureSlot_loop.induct)
  case (1 tg n ids index r)
  show ?case
  proof (cases "index = k")
    case True
    with 1 show ?thesis
      by (subst FindTextureSlot_loop.simps) auto
  next
    case False
    with 1 have "TEXTURE_INFO.tag (ids ! nat index) \<noteq> tg" "index < n" "index < MAX_TEXTURES" by auto
    moreover have "FindTextureSlot_loop tg n ids (index + 1) False r = Inr k"
      using 1 False by (intro "1.hyps"(2)) auto
    ultimately show ?thesis using 1
      by (subst FindTextureSlot_loop.simps) auto
  qed
qed

lemma BindGLTextures_loop_ok:
  "0 \<le> i \<Longrightarrow> n \<le> MAX_TEXTURES \<Longrightarrow>
   \<exists>g'. BindGLTextures_loop n ids i g = Inr g' \<and> gl_objects g' = gl_objects g \<and> gl_deleted g' = gl_deleted g \<and>
     (\<forall>j. gl_binding2D g' j = (if i \<le> j \<and> j < n then ID (ids ! nat j) else gl_binding2D g j))"
proof (induction n ids i g rule: BindGLTextures_loop.induct)
  case (1 n ids i g)
  show ?case
  proof (cases "i < n")
    case True
    let ?g = "glBindTexture (ID (ids ! nat i)) (glActiveTexture i g)"
    from 1 True obtain g' where g': "BindGLTextures_loop n ids (i + 1) ?g = Inr g'"
      "gl_objects g' = gl_objects ?g" "gl_deleted g' = gl_deleted ?g"
      "\<forall>j. gl_binding2D g' j = (if i + 1 \<le> j \<and> j < n then ID (ids ! nat j) else gl_binding2D ?g j)"
      by force
    from True 1 have "BindGLTextures_loop n ids i g = Inr g'"
      by (subst BindGLTextures_loop.simps) (simp add: g')
    with g' True show ?thesis
      by (auto simp: glBindTexture_def glActiveTexture_def)
  next
    case False
    then show ?thesis by (subst BindGLTextures_loop.simps) auto
  qed
qed


lemma FindTextureID_loop_found [simp]:
  "FindTextureID_loop tg n ids index True r = Inr r"
  by (simp add: FindTextureID_loop.simps)

lemma FindTextureID_loop_ok:
  "0 \<le> index \<Longrightarrow> n \<le> MAX_TEXTURES \<Longrightarrow> \<exists>r. FindTextureID_loop tg n ids index b r0 = Inr r"
proof (induction tg n ids index b r0 rule: FindTextureID_loop.induct)
  case (1 tg n ids index bFound textureID)
  show ?case
  proof (cases "index < n \<and> bFound = False")
    case True
    with 1 show ?thesis
      by (subst FindTextureID_loop.simps) auto
  next
    case False
    then show ?thesis by (subst FindTextureID_loop.simps) auto
  qed
qed

lemma FindTextureSlot_loop_ok:
  "0 \<le> index \<Longrightarrow> n \<le> MAX_TEXTURES \<Longrightarrow> \<exists>r. FindTextureSlot_loop tg n ids index b r0 = Inr r"
proof (induction tg n ids index b r0 rule: FindTextureSlot_loop.induct)
  case (1 tg n ids index bFound textureSlot)
  show ?case
  proof (cases "index < n \<and> bFound = False")
    case True
    with 1 show ?thesis
      by (subst FindTextureSlot_loop.simps) auto
  next
    case False
    then show ?thesis by (subst FindTextureSlot_loop.simps) auto
  qed
qed

text \<open>The loops agree on two arrays that agree below the count.\<close>

lemma FindTextureSlot_loop_agree:
  "0 \<le> index \<Longrightarrow> \<forall>j. 0 \<le> j \<and> j < n \<longrightarrow> ids ! nat j = ids' ! nat j \<Longrightarrow>
   FindTextureSlot_loop tg n ids index b r = FindTextureSlot_loop tg n ids' index b r"
proof (induction tg n ids index b r rule: FindTextureSlot_loop.induct)
  case (1 tg n ids index bFound textureSlot)
  show ?case
  proof (cases "index < n \<and> bFound = False")
    case True
    with 1 have e: "ids ! nat index = ids' ! nat index" by auto
    from True 1 show ?thesis
      by (subst (1 2) FindTextureSlot_loop.simps) (auto simp: e)
  next
    case False
    then show ?thesis by (subst (1 2) FindTextureSlot_loop.simps) auto
  qed
qed

lemma FindTextureID_loop_agree:
  "0 \<le> index \<Longrightarrow> \<forall>j. 0 \<le> j \<and> j < n \<longrightarrow> ids ! nat j = ids' ! nat j \<Longrightarrow>
   FindTextureID_loop tg n ids index b r = FindTextureID_loop tg n ids' index b r"
proof (induction tg n ids index b r rule: FindTextureID_loop.induct)
  case (1 tg n ids index bFound textureID)
  show ?case
  proof (cases "index < n \<and> bFound = False")
    case True
    with 1 have e: "ids ! nat index = ids' ! nat index" by auto
    from True 1 show ?thesis
      by (subst (1 2) FindTextureID_loop.simps) (auto simp: e)
  next
    case False
    then show ?thesis by (subst (1 2) FindTextureID_loop.simps) auto
  qed
qed

lemma BindGLTextures_loop_agree:
  "0 \<le> i \<Longrightarrow> \<forall>j. 0 \<le> j \<and> j < n \<longrightarrow> ids ! nat j = ids' ! nat j \<Longrightarrow>
   BindGLTextures_loop n ids i g = BindGLTextures_loop n ids' i g"
proof (induction n ids i g rule: BindGLTextures_loop.induct)
  case (1 n ids i g)
  show ?case
  proof (cases "i < n")
    case True
    with 1 have e: "ids ! nat i = ids' ! nat i" by auto
    from True 1 show ?thesis
      by (subst (1 2) BindGLTextures_loop.simps) (auto simp: e)
  next
    case False
    then show ?thesis by (subst (1 2) BindGLTextures_loop.simps) auto
  qed
qed

lemma DestroyGLTextures_loop_agree:
  "0 \<le> i \<Longrightarrow> \<forall>j. 0 \<le> j \<and> j < n \<longrightarrow> ids ! nat j = ids' ! nat j \<Longrightarrow>
   DestroyGLTextures_loop n ids i g = DestroyGLTextures_loop n ids' i g"
proof (induction n ids i g rule: DestroyGLTextures_loop.induct)
  case (1 n ids i g)
  show ?case
  proof (cases "i < n")
    case True
    with 1 have e: "ids ! nat i = ids' ! nat i" by auto
    from True 1 show ?thesis
      by (subst (1 2) DestroyGLTextures_loop.simps) (auto simp: e)
  next
    case False
    then show ?thesis by (subst (1 2) DestroyGLTextures_loop.simps) auto
  qed
qed

lemma fold_glDeleteTextures_objects:
  "gl_objects (fold glDeleteTextures ns g) x = (if x \<in> set ns then None else gl_objects g x)"
  by (induction ns arbitrary: g) (auto simp: glDeleteTextures_def)

lemma fold_glDeleteTextures_deleted:
  "gl_deleted (fold glDeleteTextures ns g) = gl_deleted g @ ns"
  by (induction ns arbitrary: g) (auto simp: glDeleteTextures_def)

lemma DestroyGLTextures_loop_fold:
  "0 \<le> i \<Longrightarrow> n \<le> MAX_TEXTURES \<Longrightarrow> length ids = nat MAX_TEXTURES \<Longrightarrow>
   DestroyGLTextures_loop n ids i g =
     Inr (fold glDeleteTextures (map ID (drop (nat i) (take (nat n) ids))) g)"
proof (induction n ids i g rule: DestroyGLTextures_loop.induct)
  case (1 n ids i g)
  show ?case
  proof (cases "i < n")
    case True
    with 1 have lt: "nat i < length (take (nat n) ids)" by auto
    have "drop (nat i) (take (nat n) ids) = take (nat n) ids ! nat i # drop (Suc (nat i)) (take (nat n) ids)"
      by (rule Cons_nth_drop_Suc [OF lt, symmetric])
    moreover have "take (nat n) ids ! nat i = ids ! nat i" using True 1 by auto
    moreover have "Suc (nat i) = nat (i + 1)" using 1 by auto
    ultimately have d: "drop (nat i) (take (nat n) ids) = ids ! nat i # drop (nat (i + 1)) (take (nat n) ids)"
      by simp
    from True 1 show ?thesis
      by (subst DestroyGLTextures_loop.simps) (simp add: d)
  next
    case False
    then show ?thesis by (subst DestroyGLTextures_loop.simps) auto
  qed
qed

lemma DestroyGLTextures_eq:
  assumes "m_loadedTextures s \<le> MAX_TEXTURES" "length (m_textureIDs s) = nat MAX_TEXTURES"
  shows "DestroyGLTextures s =
    Inr (s\<lparr> gl := fold glDeleteTextures (map ID (registered s)) (gl s), m_loadedTextures := 0 \<rparr>)"
  using assms by (simp add: DestroyGLTextures_def DestroyGLTextures_loop_fold registered_def)

lemma DestroyGLTextures_empty:
  "m_loadedTextures s = 0 \<Longrightarrow> DestroyGLTextures s = Inr s"
  by (simp add: DestroyGLTextures_def DestroyGLTextures_loop.simps)

lemma DestroyGLTextures_twice:
  "(case DestroyGLTextures s of Inl f \<Rightarrow> Inl f | Inr s' \<Rightarrow> DestroyGLTextures s') = DestroyGLTextures s"
proof (cases "DestroyGLTextures s")
  case (Inl f)
  then show ?thesis by simp
next
  case (Inr s')
  then have "m_loadedTextures s' = 0"
    by (auto simp: DestroyGLTextures_def split: sum.splits)
  with Inr show ?thesis by (simp add: DestroyGLTextures_empty)
qed

lemma CreateGLTexture_success:
  assumes "CreateGLTexture f t d i s = Inr (True, s')"
  shows "m_loadedTextures s' = m_loadedTextures s + 1"
    and "m_textureIDs s' = (m_textureIDs s)[nat (m_loadedTextures s) := \<lparr> TEXTURE_INFO.tag = t, ID = i \<rparr>]"
    and "m_loadedTextures s < MAX_TEXTURES" and "0 \<le> m_loadedTextures s"
  using assms by (auto simp: CreateGLTexture_def Let_def split: option.splits if_splits)

lemma CreateGLTexture_registered:
  assumes "CreateGLTexture f t d i s = Inr (True, s')" "registry_ok s"
  shows "registry_ok s'" and "registered s' = registered s @ [\<lparr> TEXTURE_INFO.tag = t, ID = i \<rparr>]"
proof -
  note c = CreateGLTexture_success [OF assms(1)]
  from c assms(2) show "registry_ok s'" by (simp add: registry_ok_def)
  have n: "nat (m_loadedTextures s + 1) = Suc (nat (m_loadedTextures s))" using c(4) by simp
  have lt: "nat (m_loadedTextures s) < length (m_textureIDs s)"
    using c(3,4) assms(2) by (simp add: registry_ok_def)
  show "registered s' = registered s @ [\<lparr> TEXTURE_INFO.tag = t, ID = i \<rparr>]"
    using lt by (simp add: registered_def c(1,2) n take_Suc_conv_app_nth)
qed

lemma CreateGLTexture_total:
  assumes "registry_ok s"
  shows "\<exists>b s'. CreateGLTexture f t d i s = Inr (b, s') \<and> registry_ok s'"
  using assms
  by (auto simp: CreateGLTexture_def Let_def registry_ok_def split: option.splits)

lemma CreateGLTextures_registered:
  "registry_ok s \<Longrightarrow> CreateGLTextures reqs s = Inr (bs, s') \<Longrightarrow> \<forall>b \<in> set bs. b \<Longrightarrow>
   registry_ok s' \<and>
   registered s' = registered s @ map (\<lambda>r. \<lparr> TEXTURE_INFO.tag = request_tag r, ID = request_ID r \<rparr>) reqs"
proof (induction reqs arbitrary: s bs)
  case Nil
  then show ?case by simp
next
  case (Cons r reqs)
  obtain f t d i where r: "r = (f, t, d, i)" by (cases r) auto
  from Cons.prems(2) r have p: "CreateGLTextures ((f, t, d, i) # reqs) s = Inr (bs, s')" by simp
  obtain b s1 where 1: "CreateGLTexture f t d i s = Inr (b, s1)"
    using p by (cases "CreateGLTexture f t d i s") auto
  obtain bs1 where 2: "CreateGLTextures reqs s1 = Inr (bs1, s')" and bs: "bs = b # bs1"
    using p 1 by (cases "CreateGLTextures reqs s1") auto
  from Cons.prems(3) bs have b: "b" and bs1: "\<forall>b \<in> set bs1. b" by auto
  from 1 b have 1: "CreateGLTexture f t d i s = Inr (True, s1)" by simp
  note c = CreateGLTexture_registered [OF 1 Cons.prems(1)]
  from Cons.IH [OF c(1) 2 bs1] c(2) r show ?case
    by (simp add: request_tag_def request_ID_def)
qed



lemma registry_ok_ctor: "registry_ok (SceneManager_ctor p junk g)"
  by (simp add: registry_ok_def SceneManager_ctor_def MAX_TEXTURES_def)

lemma registered_nth:
  assumes "registry_ok s" "0 \<le> j" "j < m_loadedTextures s"
  shows "m_textureIDs s ! nat j = registered s ! nat j"
  using assms by (simp add: registered_def registry_ok_def)

lemma length_registered:
  assumes "registry_ok s"
  shows "int (length (registered s)) = m_loadedTextures s"
  using assms by (auto simp: registered_def registry_ok_def)

lemma BindGLTextures_ok:
  assumes "registry_ok s"
  shows "\<exists>g'. BindGLTextures s = Inr (s\<lparr> gl := g' \<rparr>) \<and> gl_objects g' = gl_objects (gl s) \<and>
     gl_deleted g' = gl_deleted (gl s) \<and>
     (\<forall>j. gl_binding2D g' j =
        (if 0 \<le> j \<and> j < m_loadedTextures s then ID (m_textureIDs s ! nat j) else gl_binding2D (gl s) j))"
proof -
  from assms have "m_loadedTextures s \<le> MAX_TEXTURES" by (simp add: registry_ok_def)
  from BindGLTextures_loop_ok [OF order_refl this, of "m_textureIDs s" "gl s"]
  show ?thesis by (auto simp: BindGLTextures_def)
qed

text \<open>The OpenGL calls that act on the bound texture leave every other texture as it is.\<close>

lemma gl_bound_update [simp]: "gl_bound (gl_update_bound f g) = gl_bound g"
  by (simp add: gl_update_bound_def gl_bound_def split: option.splits)

lemma gl_bound_glBindTexture [simp]: "gl_bound (glBindTexture x g) = x"
  by (simp add: glBindTexture_def gl_bound_def)

lemma gl_deleted_update [simp]: "gl_deleted (gl_update_bound f g) = gl_deleted g"
  by (simp add: gl_update_bound_def split: option.splits)

lemma gl_objects_update_removed:
  "gl_bound g = x \<Longrightarrow> (gl_objects (gl_update_bound f g))(x := None) = (gl_objects g)(x := None)"
  by (auto simp: gl_update_bound_def split: option.splits)

text \<open>What the upload of a decoded image leaves in the OpenGL context, apart from the new texture.\<close>

lemma texture_upload:
  assumes "g2 = glTexParameteri p4 v4 (glTexParameteri p3 v3 (glTexParameteri p2 v2
             (glTexParameteri p1 v1 (glBindTexture x (glGenTextures x g)))))"
    and "g4 = glBindTexture 0 (glGenerateMipmap (glTexImage2D fmt w h g2))"
  shows "(gl_objects g4)(x := None) = (gl_objects g)(x := None)" and "gl_deleted g4 = gl_deleted g"
proof -
  have b2: "gl_bound g2 = x" by (simp add: assms(1) glTexParameteri_def)
  have "(gl_objects g2)(x := None) = (gl_objects (glBindTexture x (glGenTextures x g)))(x := None)"
    by (simp add: assms(1) glTexParameteri_def gl_objects_update_removed)
  also have "\<dots> = (gl_objects g)(x := None)"
    by (simp add: glBindTexture_def glGenTextures_def)
  finally have o2: "(gl_objects g2)(x := None) = (gl_objects g)(x := None)" .
  have "(gl_objects g4)(x := None) = (gl_objects (glGenerateMipmap (glTexImage2D fmt w h g2)))(x := None)"
    by (simp add: assms(2) glBindTexture_def)
  also have "\<dots> = (gl_objects g2)(x := None)"
    by (simp add: glGenerateMipmap_def glTexImage2D_def gl_objects_update_removed b2)
  finally show "(gl_objects g4)(x := None) = (gl_objects g)(x := None)" using o2 by simp
  show "gl_deleted g4 = gl_deleted g"
    by (simp add: assms glBindTexture_def glGenerateMipmap_def glTexImage2D_def glTexParameteri_def
        glGenTextures_def)
qed

lemma gl_update_bound_exists:
  "gl_objects g x \<noteq> None \<Longrightarrow> gl_objects (gl_update_bound f g) x \<noteq> None"
  by (auto simp: gl_update_bound_def split: option.splits)

text \<open>
  The branch for an unsupported channel count: the load fails and the registry is as it
  was, but the texture just generated is neither deleted nor registered.
\<close>

lemma CreateGLTexture_unsupported_channels:
  assumes "colorChannels img \<noteq> 3" and "colorChannels img \<noteq> 4"
  shows "\<exists>s'. CreateGLTexture filename tg (Some img) textureID s = Inr (False, s') \<and>
     m_loadedTextures s' = m_loadedTextures s \<and> m_textureIDs s' = m_textureIDs s \<and>
     gl_objects (gl s') textureID \<noteq> None \<and> gl_deleted (gl s') = gl_deleted (gl s)"
proof -
  have "gl_objects (glBindTexture textureID (glGenTextures textureID (gl s))) textureID \<noteq> None"
    by (simp add: glBindTexture_def glGenTextures_def)
  then have "gl_objects (glTexParameteri GL_TEXTURE_MAG_FILTER GL_LINEAR
                     (glTexParameteri GL_TEXTURE_MIN_FILTER GL_LINEAR
                       (glTexParameteri GL_TEXTURE_WRAP_T GL_REPEAT
                         (glTexParameteri GL_TEXTURE_WRAP_S GL_REPEAT
                           (glBindTexture textureID (glGenTextures textureID (gl s))))))) textureID \<noteq> None"
    unfolding glTexParameteri_def by (intro gl_update_bound_exists)
  moreover have "gl_deleted (glTexParameteri GL_TEXTURE_MAG_FILTER GL_LINEAR
                     (glTexParameteri GL_TEXTURE_MIN_FILTER GL_LINEAR
                       (glTexParameteri GL_TEXTURE_WRAP_T GL_REPEAT
                         (glTexParameteri GL_TEXTURE_WRAP_S GL_REPEAT
                           (glBindTexture textureID (glGenTextures textureID (gl s))))))) = gl_deleted (gl s)"
    by (simp add: glTexParameteri_def glBindTexture_def glGenTextures_def)
  ultimately show ?thesis
    using assms by (simp add: CreateGLTexture_def Let_def)
qed

lemma CreateGLTexture_room:
  assumes "registry_ok s" and "m_loadedTextures s < MAX_TEXTURES"
    and "colorChannels img = 3 \<or> colorChannels img = 4"
  shows "\<exists>s'. CreateGLTexture f t (Some img) i s = Inr (True, s') \<and> gl_deleted (gl s') = gl_deleted (gl s)"
proof -
  define g2 where "g2 = glTexParameteri GL_TEXTURE_MAG_FILTER GL_LINEAR
                     (glTexParameteri GL_TEXTURE_MIN_FILTER GL_LINEAR
                       (glTexParameteri GL_TEXTURE_WRAP_T GL_REPEAT
                         (glTexParameteri GL_TEXTURE_WRAP_S GL_REPEAT
                           (glBindTexture i (glGenTextures i (gl s))))))"
  define g4 where "g4 = glBindTexture 0 (glGenerateMipmap (glTexImage2D
      (if colorChannels img = 3 then GL_RGB8 else GL_RGBA8) (width img) (height img) g2))"
  define s' where "s' = s\<lparr> cout := cout s @ [LoadedImage f (width img) (height img) (colorChannels img)],
      gl := g4,
      m_textureIDs := (m_textureIDs s)[nat (m_loadedTextures s) := \<lparr> TEXTURE_INFO.tag = t, ID = i \<rparr>],
      m_loadedTextures := m_loadedTextures s + 1 \<rparr>"
  have "CreateGLTexture f t (Some img) i s = Inr (True, s')"
    using assms by (auto simp: CreateGLTexture_def Let_def s'_def g4_def g2_def registry_ok_def)
  moreover have "gl_deleted (gl s') = gl_deleted (gl s)"
    using texture_upload(2) [OF g2_def g4_def] by (simp add: s'_def)
  ultimately show ?thesis by blast
qed

lemma CreateGLTextures_all_succeed:
  "registry_ok s \<Longrightarrow> m_loadedTextures s + int (length reqs) \<le> MAX_TEXTURES \<Longrightarrow>
   \<forall>r \<in> set reqs. \<exists>img. fst (snd (snd r)) = Some img \<and> (colorChannels img = 3 \<or> colorChannels img = 4) \<Longrightarrow>
   \<exists>s'. CreateGLTextures reqs s = Inr (replicate (length reqs) True, s') \<and>
        gl_deleted (gl s') = gl_deleted (gl s)"
proof (induction reqs arbitrary: s)
  case Nil
  then show ?case by simp
next
  case (Cons r reqs)
  obtain f t d i where r: "r = (f, t, d, i)" by (cases r) auto
  from Cons.prems(3) r obtain img where d: "d = Some img"
    and ch: "colorChannels img = 3 \<or> colorChannels img = 4" by auto
  from Cons.prems(2) have lt: "m_loadedTextures s < MAX_TEXTURES" by simp
  from CreateGLTexture_room [OF Cons.prems(1) lt ch] obtain s1 where
    1: "CreateGLTexture f t (Some img) i s = Inr (True, s1)" and d1: "gl_deleted (gl s1) = gl_deleted (gl s)"
    by blast
  note c = CreateGLTexture_registered(1) [OF 1 Cons.prems(1)] CreateGLTexture_success(1) [OF 1]
  from c(2) Cons.prems(2) have le: "m_loadedTextures s1 + int (length reqs) \<le> MAX_TEXTURES" by simp
  from Cons.prems(3) have "\<forall>r \<in> set reqs. \<exists>img. fst (snd (snd r)) = Some img \<and> (colorChannels img = 3 \<or> colorChannels img = 4)"
    by simp
  from Cons.IH [OF c(1) le this] obtain s' where
    2: "CreateGLTextures reqs s1 = Inr (replicate (length reqs) True, s')" and d2: "gl_deleted (gl s') = gl_deleted (gl s1)"
    by blast
  from 1 2 d1 d2 show ?case by (simp add: r d)
qed

text \<open>The scans read the registered entries only.\<close>

lemma FindTextureSlot_registered:
  assumes "registry_ok s"
  shows "FindTextureSlot tg s =
    FindTextureSlot_loop tg (int (length (registered s))) (registered s) 0 False (- 1)"
proof -
  have "\<forall>j. 0 \<le> j \<and> j < m_loadedTextures s \<longrightarrow> m_textureIDs s ! nat j = registered s ! nat j"
    using registered_nth [OF assms] by blast
  from FindTextureSlot_loop_agree [OF order_refl this]
  show ?thesis by (simp add: FindTextureSlot_def length_registered [OF assms])
qed

lemma FindTextureID_registered:
  assumes "registry_ok s"
  shows "FindTextureID tg s =
    FindTextureID_loop tg (int (length (registered s))) (registered s) 0 False (- 1)"
proof -
  have "\<forall>j. 0 \<le> j \<and> j < m_loadedTextures s \<longrightarrow> m_textureIDs s ! nat j = registered s ! nat j"
    using registered_nth [OF assms] by blast
  from FindTextureID_loop_agree [OF order_refl this]
  show ?thesis by (simp add: FindTextureID_def length_registered [OF assms])
qed

text \<open>The two example registries.\<close>

lemma loaded_examples:
  assumes "length reqs \<le> 16"
    and "\<forall>r \<in> set reqs. \<exists>img. fst (snd (snd r)) = Some img \<and> (colorChannels img = 3 \<or> colorChannels img = 4)"
  shows "CreateGLTextures reqs (new_manager p) = Inr (replicate (length reqs) True, loaded reqs (new_manager p))"
    and "registry_ok (loaded reqs (new_manager p))"
    and "registered (loaded reqs (new_manager p)) =
           map (\<lambda>r. \<lparr> TEXTURE_INFO.tag = request_tag r, ID = request_ID r \<rparr>) reqs"
    and "m_loadedTextures (loaded reqs (new_manager p)) = int (length reqs)"
    and "gl_deleted (gl (loaded reqs (new_manager p))) = []"
proof -
  have ok: "registry_ok (new_manager p)" by (simp add: new_manager_def registry_ok_ctor)
  have z: "registered (new_manager p) = []" "gl_deleted (gl (new_manager p)) = []"
    "m_loadedTextures (new_manager p) = 0"
    by (simp_all add: registered_def new_manager_def SceneManager_ctor_def gl_initial_def)
  from assms(1) z(3) have le: "m_loadedTextures (new_manager p) + int (length reqs) \<le> MAX_TEXTURES"
    by (simp add: MAX_TEXTURES_def)
  from CreateGLTextures_all_succeed [OF ok le assms(2)] z(2)
  show c: "CreateGLTextures reqs (new_manager p) = Inr (replicate (length reqs) True, loaded reqs (new_manager p))"
    and "gl_deleted (gl (loaded reqs (new_manager p))) = []"
    by (auto simp: loaded_def)
  from CreateGLTextures_registered [OF ok c] z(1)
  show 1: "registry_ok (loaded reqs (new_manager p))"
    and 2: "registered (loaded reqs (new_manager p)) =
           map (\<lambda>r. \<lparr> TEXTURE_INFO.tag = request_tag r, ID = request_ID r \<rparr>) reqs"
    by simp_all
  from length_registered [OF 1] 2 show "m_loadedTextures (loaded reqs (new_manager p)) = int (length reqs)"
    by simp
qed

lemma abc_loaded:
  "CreateGLTextures abc_requests (new_manager p) = Inr ([True, True, True], loaded abc_requests (new_manager p))"
  "registry_ok (loaded abc_requests (new_manager p))"
  "registered (loaded abc_requests (new_manager p)) =
     [\<lparr> TEXTURE_INFO.tag = ''a'', ID = 7 \<rparr>, \<lparr> TEXTURE_INFO.tag = ''b'', ID = 8 \<rparr>,
      \<lparr> TEXTURE_INFO.tag = ''c'', ID = 9 \<rparr>]"
  "m_loadedTextures (loaded abc_requests (new_manager p)) = 3"
  "gl_deleted (gl (loaded abc_requests (new_manager p))) = []"
  using loaded_examples [of abc_requests p]
  by (simp_all add: abc_requests_def rgb_image_def request_tag_def request_ID_def)

lemma sixteen_loaded:
  "registry_ok (loaded sixteen_requests (new_manager p))"
  "registered (loaded sixteen_requests (new_manager p)) =
     [\<lparr> TEXTURE_INFO.tag = ''a'', ID = 1 \<rparr>, \<lparr> TEXTURE_INFO.tag = ''b'', ID = 2 \<rparr>,
      \<lparr> TEXTURE_INFO.tag = ''c'', ID = 3 \<rparr>, \<lparr> TEXTURE_INFO.tag = ''d'', ID = 4 \<rparr>,
      \<lparr> TEXTURE_INFO.tag = ''e'', ID = 5 \<rparr>, \<lparr> TEXTURE_INFO.tag = ''f'', ID = 6 \<rparr>,
      \<lparr> TEXTURE_INFO.tag = ''g'', ID = 7 \<rparr>, \<lparr> TEXTURE_INFO.tag = ''h'', ID = 8 \<rparr>,
      \<lparr> TEXTURE_INFO.tag = ''i'', ID = 9 \<rparr>, \<lparr> TEXTURE_INFO.tag = ''j'', ID = 10 \<rparr>,
      \<lparr> TEXTURE_INFO.tag = ''k'', ID = 11 \<rparr>, \<lparr> TEXTURE_INFO.tag = ''l'', ID = 12 \<rparr>,
      \<lparr> TEXTURE_INFO.tag = ''m'', ID = 13 \<rparr>, \<lparr> TEXTURE_INFO.tag = ''n'', ID = 14 \<rparr>,
      \<lparr> TEXTURE_INFO.tag = ''o'', ID = 15 \<rparr>, \<lparr> TEXTURE_INFO.tag = ''p'', ID = 16 \<rparr>]"
  "m_loadedTextures (loaded sixteen_requests (new_manager p)) = 16"
  "gl_deleted (gl (loaded sixteen_requests (new_manager p))) = []"
  using loaded_examples [of sixteen_requests p]
  by (simp_all add: sixteen_requests_def rgb_image_def request_tag_def request_ID_def)

text \<open>A load leaves every texture but the one it generates as it is.\<close>

lemma texture_params_objects:
  "(gl_objects (glTexParameteri p4 v4 (glTexParameteri p3 v3 (glTexParameteri p2 v2
      (glTexParameteri p1 v1 (glBindTexture x (glGenTextures x g)))))))(x := None) =
   (gl_objects g)(x := None)"
proof -
  have "(gl_objects (glTexParameteri p4 v4 (glTexParameteri p3 v3 (glTexParameteri p2 v2
      (glTexParameteri p1 v1 (glBindTexture x (glGenTextures x g)))))))(x := None) =
    (gl_objects (glBindTexture x (glGenTextures x g)))(x := None)"
    by (simp add: glTexParameteri_def gl_objects_update_removed)
  also have "\<dots> = (gl_objects g)(x := None)"
    by (simp add: glBindTexture_def glGenTextures_def)
  finally show ?thesis .
qed

lemma CreateGLTexture_other_objects:
  assumes c: "CreateGLTexture f t d i s = Inr (b, s')" and x: "x \<noteq> i"
  shows "gl_objects (gl s') x = gl_objects (gl s) x"
proof -
  have "(gl_objects (gl s'))(i := None) = (gl_objects (gl s))(i := None)"
  proof (cases d)
    case None
    with c show ?thesis by (auto simp: CreateGLTexture_def)
  next
    case (Some img)
    define g2 where "g2 = glTexParameteri GL_TEXTURE_MAG_FILTER GL_LINEAR
                     (glTexParameteri GL_TEXTURE_MIN_FILTER GL_LINEAR
                       (glTexParameteri GL_TEXTURE_WRAP_T GL_REPEAT
                         (glTexParameteri GL_TEXTURE_WRAP_S GL_REPEAT
                           (glBindTexture i (glGenTextures i (gl s))))))"
    define g4 where "g4 = glBindTexture 0 (glGenerateMipmap (glTexImage2D
      (if colorChannels img = 3 then GL_RGB8 else GL_RGBA8) (width img) (height img) g2))"
    have o2: "(gl_objects g2)(i := None) = (gl_objects (gl s))(i := None)"
      unfolding g2_def by (rule texture_params_objects)
    note o4 = texture_upload(1) [OF g2_def g4_def]
    have "gl s' = g2 \<or> gl s' = g4 \<or> gl s' = glDeleteTextures i g4"
      using c Some by (auto simp: CreateGLTexture_def Let_def g2_def g4_def split: if_splits)
    then show ?thesis
    proof (elim disjE)
      assume "gl s' = g2" with o2 show ?thesis by simp
    next
      assume "gl s' = g4" with o4 show ?thesis by simp
    next
      assume "gl s' = glDeleteTextures i g4"
      then have "(gl_objects (gl s'))(i := None) = (gl_objects g4)(i := None)"
        by (simp add: glDeleteTextures_def)
      with o4 show ?thesis by simp
    qed
  qed
  then have "((gl_objects (gl s'))(i := None)) x = ((gl_objects (gl s))(i := None)) x" by simp
  with x show ?thesis by simp
qed

lemma CreateGLTextures_other_objects:
  "CreateGLTextures reqs s = Inr (bs, s') \<Longrightarrow> x \<notin> request_ID ` set reqs \<Longrightarrow>
   gl_objects (gl s') x = gl_objects (gl s) x"
proof (induction reqs arbitrary: s bs)
  case Nil
  then show ?case by simp
next
  case (Cons r reqs)
  obtain f t d i where r: "r = (f, t, d, i)" by (cases r) auto
  from Cons.prems(1) r have p: "CreateGLTextures ((f, t, d, i) # reqs) s = Inr (bs, s')" by simp
  obtain b s1 where 1: "CreateGLTexture f t d i s = Inr (b, s1)"
    using p by (cases "CreateGLTexture f t d i s") auto
  obtain bs1 where 2: "CreateGLTextures reqs s1 = Inr (bs1, s')"
    using p 1 by (cases "CreateGLTextures reqs s1") auto
  from Cons.prems(2) r have xi: "x \<noteq> i" and xr: "x \<notin> request_ID ` set reqs"
    by (auto simp: request_ID_def)
  from Cons.IH [OF 2 xr] CreateGLTexture_other_objects [OF 1 xi] show ?case by simp
qed

lemma sixteen_fresh_name: "gl_objects (gl (loaded sixteen_requests (new_manager None))) 17 = None"
proof -
  have "CreateGLTextures sixteen_requests (new_manager None) =
      Inr (replicate (length sixteen_requests) True, loaded sixteen_requests (new_manager None))"
    by (rule loaded_examples(1)) (simp_all add: sixteen_requests_def rgb_image_def)
  moreover have "(17 :: GLuint) \<notin> request_ID ` set sixteen_requests"
    by (simp add: sixteen_requests_def request_ID_def)
  ultimately have "gl_objects (gl (loaded sixteen_requests (new_manager None))) 17 =
      gl_objects (gl (new_manager None)) 17"
    by (rule CreateGLTextures_other_objects)
  then show ?thesis by (simp add: new_manager_def SceneManager_ctor_def gl_initial_def)
qed

section \<open>Properties of the transform builder and the publisher\<close>

lemma glm_rotate_X: "glm_rotate a (vec3 1 0 0) = spec_RotateX a"
  by (simp add: spec_RotateX_def Let_def)

lemma glm_rotate_Y: "glm_rotate a (vec3 0 1 0) = spec_RotateY a"
  by (simp add: spec_RotateY_def Let_def)

lemma glm_rotate_Z: "glm_rotate a (vec3 0 0 1) = spec_RotateZ a"
  by (simp add: spec_RotateZ_def Let_def)

lemma glm_scale_spec: "glm_scale s = spec_Scale s"
  by (cases s) (simp add: spec_Scale_def)

lemma glm_translate_spec: "glm_translate t = spec_Translate t"
  by (cases t) (simp add: spec_Translate_def)

lemma vec4_scaled_add: "vec4_scaled (u + v) k = vec4_scaled u k + vec4_scaled v k"
  by (cases u; cases v) (simp add: algebra_simps)

lemma vec4_scaled_scaled: "vec4_scaled (vec4_scaled u k) l = vec4_scaled u (k * l)"
  by (cases u) (simp add: algebra_simps)

lemma vec4_add_assoc: "(u + v) + w = u + (v + (w :: vec4))"
  by (cases u; cases v; cases w) simp

lemma vec4_add_commute: "u + v = v + (u :: vec4)"
  by (cases u; cases v) simp

lemma vec4_add_left_commute: "u + (v + w) = v + (u + (w :: vec4))"
  by (cases u; cases v; cases w) simp

lemma vec4_scaled_plus: "vec4_scaled u (k + l) = vec4_scaled u k + vec4_scaled u l"
  by (cases u) (simp add: algebra_simps)

lemma mat4_vec_times: "mat4_vec (A * B) v = mat4_vec A (mat4_vec B v)"
proof -
  obtain a0 a1 a2 a3 where A: "A = mat4 a0 a1 a2 a3" by (cases A)
  obtain b0 b1 b2 b3 where B: "B = mat4 b0 b1 b2 b3" by (cases B)
  obtain x y z w where v: "v = vec4 x y z w" by (cases v)
  have lin: "mat4_vec A (vec4_scaled u k) = vec4_scaled (mat4_vec A u) k" for u k
    by (cases u) (simp add: A vec4_scaled_add vec4_scaled_scaled)
  have add: "mat4_vec A (u + u') = mat4_vec A u + mat4_vec A u'" for u u'
    by (cases u; cases u')
      (simp add: A vec4_scaled_plus vec4_add_assoc vec4_add_commute vec4_add_left_commute)
  show ?thesis
    by (simp add: B v lin [symmetric] add [symmetric])
qed


lemma mat4_vec_Scale: "mat4_vec (spec_Scale s) p = scale_point s p"
  by (cases s; cases p) (simp add: spec_Scale_def scale_point_def)

lemma mat4_vec_RotateX: "mat4_vec (spec_RotateX a) p = rotateX_point a p"
  by (cases p) (simp add: spec_RotateX_def rotateX_point_def algebra_simps)

lemma mat4_vec_RotateY: "mat4_vec (spec_RotateY a) p = rotateY_point a p"
  by (cases p) (simp add: spec_RotateY_def rotateY_point_def algebra_simps)

lemma mat4_vec_RotateZ: "mat4_vec (spec_RotateZ a) p = rotateZ_point a p"
  by (cases p) (simp add: spec_RotateZ_def rotateZ_point_def algebra_simps)

lemma mat4_vec_Translate: "mat4_vec (spec_Translate t) p = translate_point t p"
  by (cases t; cases p) (simp add: spec_Translate_def translate_point_def algebra_simps)

lemma null_shader_publishes:
  assumes "m_pShaderManager s = None"
  shows "SetTransformations scaleXYZ xDegrees yDegrees zDegrees positionXYZ offset s = s"
    and "SetShaderColor r g b a s = s"
    and "SetShaderTexture textureTag s = Inr s"
    and "SetTextureUVScale u v s = s"
  using assms
  by (simp_all add: SetTransformations_def SetShaderColor_def SetShaderTexture_def SetTextureUVScale_def Let_def)

lemma SetShaderMaterial_null_shader:
  assumes "m_pShaderManager s = None" and "m_objectMaterials s \<noteq> []"
  shows "SetShaderMaterial materialTag uninit s = Inl NullPointerDereference"
  using assms by (simp add: SetShaderMaterial_def FindMaterial_def)

lemma SetShaderMaterial_empty_catalog:
  assumes "m_objectMaterials s = []"
  shows "SetShaderMaterial materialTag uninit s = Inr s"
  using assms by (simp add: SetShaderMaterial_def)

lemma SetShaderMaterial_absent_tag:
  assumes "m_objectMaterials s \<noteq> []" and "tg \<notin> OBJECT_MATERIAL.tag ` set (m_objectMaterials s)"
    and "m_pShaderManager s = Some sh"
  shows "SetShaderMaterial tg uninit s = Inr (s\<lparr> m_pShaderManager := Some
           (setUniform ''material.shininess'' (FloatValue (shininess uninit))
             (setUniform ''material.specularColor'' (Vec3Value (specularColor uninit))
               (setUniform ''material.diffuseColor'' (Vec3Value (diffuseColor uninit)) sh))) \<rparr>)"
proof -
  from assms(2) have "\<forall>m \<in> set (m_objectMaterials s). OBJECT_MATERIAL.tag m \<noteq> tg" by auto
  with assms(1,3) show ?thesis
    by (simp add: SetShaderMaterial_def FindMaterial_def FindMaterial_loop_absent)
qed

section \<open>Properties of the scene composer\<close>

lemma seq_append:
  "seq (a @ b) s = (case seq a s of Inl e \<Rightarrow> Inl e | Inr s' \<Rightarrow> seq b s')"
  by (induction a arbitrary: s) (auto split: sum.splits)

lemma issues_Nil: "issues [] []"
  by (simp add: issues_def)

lemma issues_step:
  assumes f: "\<And>s. frame_ready s \<Longrightarrow>
      \<exists>s'. f s = Inr s' \<and> frame_ready s' \<and> m_basicMeshes s' = m_basicMeshes s @ map DrawMesh qs"
    and rest: "issues calls ps"
  shows "issues (f # calls) (qs @ ps)"
  unfolding issues_def
proof (intro allI impI)
  fix s assume "frame_ready s"
  from f [OF this] obtain s1 where 1: "f s = Inr s1" "frame_ready s1"
    "m_basicMeshes s1 = m_basicMeshes s @ map DrawMesh qs" by blast
  from rest 1(2) obtain s' where 2: "seq calls s1 = Inr s'" "frame_ready s'"
    "m_basicMeshes s' = m_basicMeshes s1 @ map DrawMesh ps" by (auto simp: issues_def)
  from 1 2 show "\<exists>s'. seq (f # calls) s = Inr s' \<and> frame_ready s' \<and>
      m_basicMeshes s' = m_basicMeshes s @ map DrawMesh (qs @ ps)"
    by simp
qed

lemma issues_append:
  assumes a: "issues a ps" and b: "issues b qs"
  shows "issues (a @ b) (ps @ qs)"
  unfolding issues_def
proof (intro allI impI)
  fix s assume "frame_ready s"
  with a obtain s1 where 1: "seq a s = Inr s1" "frame_ready s1"
    "m_basicMeshes s1 = m_basicMeshes s @ map DrawMesh ps" by (auto simp: issues_def)
  from b 1(2) obtain s' where 2: "seq b s1 = Inr s'" "frame_ready s'"
    "m_basicMeshes s' = m_basicMeshes s1 @ map DrawMesh qs" by (auto simp: issues_def)
  from 1 2 show "\<exists>s'. seq (a @ b) s = Inr s' \<and> frame_ready s' \<and>
      m_basicMeshes s' = m_basicMeshes s @ map DrawMesh (ps @ qs)"
    by (simp add: seq_append)
qed

lemma issues_ok:
  assumes "\<And>s. frame_ready s \<Longrightarrow>
      frame_ready (f s) \<and> m_basicMeshes (f s) = m_basicMeshes s @ map DrawMesh qs"
    and "issues calls ps"
  shows "issues (ok f # calls) (qs @ ps)"
  by (rule issues_step) (use assms in \<open>simp_all add: ok_def\<close>)

lemma SetTransformations_ready:
  "frame_ready s \<Longrightarrow> frame_ready (SetTransformations sc x y z p off s) \<and>
     m_basicMeshes (SetTransformations sc x y z p off s) = m_basicMeshes s"
  by (auto simp: SetTransformations_def frame_ready_def Let_def split: option.splits)

lemma SetTextureUVScale_ready:
  "frame_ready s \<Longrightarrow> frame_ready (SetTextureUVScale u v s) \<and>
     m_basicMeshes (SetTextureUVScale u v s) = m_basicMeshes s"
  by (auto simp: SetTextureUVScale_def frame_ready_def split: option.splits)

lemma SetShaderTexture_ready:
  assumes "frame_ready s"
  shows "\<exists>s'. SetShaderTexture textureTag s = Inr s' \<and> frame_ready s' \<and>
              m_basicMeshes s' = m_basicMeshes s @ map DrawMesh []"
proof -
  from assms obtain sh where sh: "m_pShaderManager s = Some sh" and le: "m_loadedTextures s \<le> MAX_TEXTURES"
    by (auto simp: frame_ready_def)
  from FindTextureSlot_loop_ok [OF order_refl le] obtain r where "FindTextureSlot textureTag s = Inr r"
    unfolding FindTextureSlot_def by blast
  with sh le show ?thesis
    by (simp add: SetShaderTexture_def Let_def frame_ready_def)
qed

lemma SetShaderMaterial_ready:
  assumes "frame_ready s"
  shows "\<exists>s'. SetShaderMaterial materialTag uninit s = Inr s' \<and> frame_ready s' \<and>
              m_basicMeshes s' = m_basicMeshes s @ map DrawMesh []"
  using assms
  by (auto simp: SetShaderMaterial_def frame_ready_def split: prod.splits)

lemma issues_SetTransformations:
  assumes "issues calls ps"
  shows "issues (ok (SetTransformations sc x y z p off) # calls) ps"
proof -
  have "issues (ok (SetTransformations sc x y z p off) # calls) ([] @ ps)"
    by (rule issues_ok) (simp_all add: SetTransformations_ready assms)
  then show ?thesis by simp
qed

lemma issues_SetTextureUVScale:
  assumes "issues calls ps"
  shows "issues (ok (SetTextureUVScale u v) # calls) ps"
proof -
  have "issues (ok (SetTextureUVScale u v) # calls) ([] @ ps)"
    by (rule issues_ok) (simp_all add: SetTextureUVScale_ready assms)
  then show ?thesis by simp
qed

lemma issues_SetShaderTexture:
  assumes "issues calls ps"
  shows "issues (SetShaderTexture textureTag # calls) ps"
proof -
  have "issues (SetShaderTexture textureTag # calls) ([] @ ps)"
    by (rule issues_step) (rule SetShaderTexture_ready, assumption, rule assms)
  then show ?thesis by simp
qed

lemma issues_SetShaderMaterial:
  assumes "issues calls ps"
  shows "issues (SetShaderMaterial materialTag uninit # calls) ps"
proof -
  have "issues (SetShaderMaterial materialTag uninit # calls) ([] @ ps)"
    by (rule issues_step) (rule SetShaderMaterial_ready, assumption, rule assms)
  then show ?thesis by simp
qed

lemma issues_DrawPlaneMesh:
  assumes "issues calls ps"
  shows "issues (ok DrawPlaneMesh # calls) (Plane # ps)"
proof -
  have "issues (ok DrawPlaneMesh # calls) ([Plane] @ ps)"
    by (rule issues_ok) (simp_all add: DrawPlaneMesh_def frame_ready_def assms)
  then show ?thesis by simp
qed

lemma issues_DrawBoxMesh:
  assumes "issues calls ps"
  shows "issues (ok DrawBoxMesh # calls) (Box # ps)"
proof -
  have "issues (ok DrawBoxMesh # calls) ([Box] @ ps)"
    by (rule issues_ok) (simp_all add: DrawBoxMesh_def frame_ready_def assms)
  then show ?thesis by simp
qed

lemma issues_DrawConeMesh:
  assumes "issues calls ps"
  shows "issues (ok DrawConeMesh # calls) (Cone # ps)"
proof -
  have "issues (ok DrawConeMesh # calls) ([Cone] @ ps)"
    by (rule issues_ok) (simp_all add: DrawConeMesh_def frame_ready_def assms)
  then show ?thesis by simp
qed

lemma issues_DrawSphereMesh:
  assumes "issues calls ps"
  shows "issues (ok DrawSphereMesh # calls) (Sphere # ps)"
proof -
  have "issues (ok DrawSphereMesh # calls) ([Sphere] @ ps)"
    by (rule issues_ok) (simp_all add: DrawSphereMesh_def frame_ready_def assms)
  then show ?thesis by simp
qed

lemma issues_DrawCylinderMesh:
  assumes "issues calls ps"
  shows "issues (ok DrawCylinderMesh # calls) (Cylinder # ps)"
proof -
  have "issues (ok DrawCylinderMesh # calls) ([Cylinder] @ ps)"
    by (rule issues_ok) (simp_all add: DrawCylinderMesh_def frame_ready_def assms)
  then show ?thesis by simp
qed

lemmas issues_calls = issues_Nil issues_SetTransformations issues_SetTextureUVScale
  issues_SetShaderTexture issues_SetShaderMaterial issues_DrawPlaneMesh issues_DrawBoxMesh
  issues_DrawConeMesh issues_DrawSphereMesh issues_DrawCylinderMesh

lemma issues_table: "issues (RenderScene_table uninit) [Plane]"
  unfolding RenderScene_table_def by (intro issues_calls)

lemma issues_lamp1: "issues (RenderScene_lamp1 uninit) lamp_primitives"
  unfolding RenderScene_lamp1_def lamp_primitives_def Let_def by (intro issues_calls)

lemma issues_lamp2: "issues (RenderScene_lamp2 uninit) lamp_primitives"
  unfolding RenderScene_lamp2_def lamp_primitives_def Let_def by (intro issues_calls)

lemma issues_books: "issues (RenderScene_books uninit) [Box, Box]"
  unfolding RenderScene_books_def by (intro issues_calls)

lemma issues_jar: "issues (RenderScene_jar uninit) [Cylinder, Sphere, Cylinder, Sphere, Sphere]"
  unfolding RenderScene_jar_def Let_def by (intro issues_calls)

lemma issues_window: "issues (RenderScene_window uninit) [Plane, Box, Box, Box, Box, Box, Plane, Plane]"
  unfolding RenderScene_window_def Let_def by (intro issues_calls)

lemma issues_block_draws:
  assumes "issues calls ps" and "frame_ready s"
  shows "block_draws calls s = Some (map DrawMesh ps)"
  using assms by (auto simp: issues_def block_draws_def)

lemma issues_RenderScene:
  "issues (RenderScene_table uninit @ RenderScene_lamp1 uninit @ RenderScene_lamp2 uninit @
          RenderScene_books uninit @ RenderScene_jar uninit @ RenderScene_window uninit)
     ([Plane] @ lamp_primitives @ lamp_primitives @ [Box, Box] @
      [Cylinder, Sphere, Cylinder, Sphere, Sphere] @ [Plane, Box, Box, Box, Box, Box, Plane, Plane])"
  by (intro issues_append issues_table issues_lamp1 issues_lamp2 issues_books issues_jar issues_window)

lemma RenderScene_frame_draws:
  assumes "frame_ready s"
  shows "frame_draws uninit s = Some (map DrawMesh
     ([Plane] @ lamp_primitives @ lamp_primitives @ [Box, Box] @
      [Cylinder, Sphere, Cylinder, Sphere, Sphere] @ [Plane, Box, Box, Box, Box, Box, Plane, Plane]))"
  using issues_RenderScene [of uninit] assms
  by (auto simp: issues_def frame_draws_def RenderScene_def)

text \<open>The reference scene.\<close>

lemma SetupSceneLights_ready:
  assumes "m_pShaderManager s = Some sh"
  shows "\<exists>s'. SetupSceneLights s = Inr s' \<and> m_pShaderManager s' \<noteq> None \<and>
     m_loadedTextures s' = m_loadedTextures s \<and> m_basicMeshes s' = m_basicMeshes s \<and>
     m_objectMaterials s' = m_objectMaterials s"
  using assms by (simp add: SetupSceneLights_def)

lemma CreateGLTexture_frame:
  assumes "CreateGLTexture f t d i s = Inr (b, s')"
  shows "m_pShaderManager s' = m_pShaderManager s \<and> m_basicMeshes s' = m_basicMeshes s \<and>
     m_objectMaterials s' = m_objectMaterials s"
  using assms by (auto simp: CreateGLTexture_def Let_def split: option.splits if_splits)

lemma CreateGLTextures_frame:
  "CreateGLTextures reqs s = Inr (bs, s') \<Longrightarrow>
   m_pShaderManager s' = m_pShaderManager s \<and> m_basicMeshes s' = m_basicMeshes s \<and>
     m_objectMaterials s' = m_objectMaterials s"
proof (induction reqs arbitrary: s bs)
  case Nil
  then show ?case by simp
next
  case (Cons r reqs)
  obtain f t d i where r: "r = (f, t, d, i)" by (cases r) auto
  from Cons.prems r have p: "CreateGLTextures ((f, t, d, i) # reqs) s = Inr (bs, s')" by simp
  obtain b s1 where 1: "CreateGLTexture f t d i s = Inr (b, s1)"
    using p by (cases "CreateGLTexture f t d i s") auto
  obtain bs1 where 2: "CreateGLTextures reqs s1 = Inr (bs1, s')"
    using p 1 by (cases "CreateGLTextures reqs s1") auto
  from Cons.IH [OF 2] CreateGLTexture_frame [OF 1] show ?case by simp
qed

lemma prepared_scene_ready:
  "frame_ready prepared_scene \<and> m_loadedTextures prepared_scene = 7 \<and>
   m_basicMeshes prepared_scene = map LoadMesh [Plane, Box, Cone, Sphere, Cylinder] \<and>
   m_objectMaterials prepared_scene = m_objectMaterials (DefineObjectMaterials prepared_scene)"
proof -
  let ?reqs = "[ (''textures/wooden.jpg'', ''wooden'', Some rgb_image, 1 :: GLuint),
          (''textures/vase.jpg'', ''vase'', Some rgb_image, 2),
          (''textures/table.jpg'', ''table'', Some rgb_image, 3),
          (''textures/stand.jpg'', ''stand'', Some rgb_image, 4),
          (''textures/neck.jpg'', ''neck'', Some rgb_image, 5),
          (''textures/book_cover.jpg'', ''bookcover_tex'', Some rgb_image, 6),
          (''textures/window_frame_tex.jpg'', ''window_frame_tex'', Some rgb_image, 7) ]"
  let ?s0 = "new_manager (Some [])"
  let ?s1 = "loaded ?reqs ?s0"
  have l: "CreateGLTextures ?reqs ?s0 = Inr (replicate (length ?reqs) True, ?s1)"
    "registry_ok ?s1" "m_loadedTextures ?s1 = int (length ?reqs)"
    using loaded_examples [of ?reqs "Some []"] by (simp_all add: rgb_image_def)
  from BindGLTextures_ok [OF l(2)] obtain g' where b: "BindGLTextures ?s1 = Inr (?s1\<lparr> gl := g' \<rparr>)"
    by blast
  from CreateGLTextures_frame [OF l(1)]
  have fr: "m_pShaderManager ?s1 = Some []" "m_basicMeshes ?s1 = []"
    by (simp_all add: new_manager_def SceneManager_ctor_def)
  let ?s2 = "DefineObjectMaterials (?s1\<lparr> gl := g' \<rparr>)"
  have "m_pShaderManager ?s2 = Some []" using fr by (simp add: DefineObjectMaterials_def)
  from SetupSceneLights_ready [OF this] obtain s3 where 3: "SetupSceneLights ?s2 = Inr s3"
    "m_pShaderManager s3 \<noteq> None" "m_loadedTextures s3 = m_loadedTextures ?s2"
    "m_basicMeshes s3 = m_basicMeshes ?s2" "m_objectMaterials s3 = m_objectMaterials ?s2"
    by blast
  have load: "LoadSceneTextures all_decoded names_from_one ?s0 = Inr (?s1\<lparr> gl := g' \<rparr>)"
    using l(1) b by (simp add: LoadSceneTextures_def all_decoded_def names_from_one_def)
  have "PrepareScene all_decoded names_from_one ?s0 =
      Inr (LoadCylinderMesh (LoadSphereMesh (LoadConeMesh (LoadBoxMesh (LoadPlaneMesh s3)))))"
    by (simp add: PrepareScene_def load ok_def 3(1))
  then have p: "prepared_scene = LoadCylinderMesh (LoadSphereMesh (LoadConeMesh (LoadBoxMesh (LoadPlaneMesh s3))))"
    by (simp add: prepared_scene_def)
  show ?thesis
    unfolding p using 3(2-5) l(3) fr
    by (simp add: frame_ready_def LoadCylinderMesh_def LoadSphereMesh_def LoadConeMesh_def
        LoadBoxMesh_def LoadPlaneMesh_def DefineObjectMaterials_def MAX_TEXTURES_def)
qed

section \<open>The claims\<close>

text \<open>
  C1, as amended. From a state in which a frame can be rendered, and so for the reference
  scene, one call of \<open>RenderScene\<close> issues 36 draw commands in a fixed order: the floor
  plane; 20 lamp draws, the ten primitives of \<open>lamp_primitives\<close> for each of the two
  lamps; the two book boxes; the five jar parts; and the eight parts of the window and
  wall. Each part of \<open>RenderScene\<close> issues its own draws from any such state.
\<close>

theorem RenderScene_draw_sequence:
  assumes "frame_ready s"
  shows "block_draws (RenderScene_table uninit) s = Some (map DrawMesh [Plane]) \<and>
     block_draws (RenderScene_lamp1 uninit) s = Some (map DrawMesh lamp_primitives) \<and>
     block_draws (RenderScene_lamp2 uninit) s = Some (map DrawMesh lamp_primitives) \<and>
     block_draws (RenderScene_books uninit) s = Some (map DrawMesh [Box, Box]) \<and>
     block_draws (RenderScene_jar uninit) s = Some (map DrawMesh [Cylinder, Sphere, Cylinder, Sphere, Sphere]) \<and>
     block_draws (RenderScene_window uninit) s =
       Some (map DrawMesh [Plane, Box, Box, Box, Box, Box, Plane, Plane]) \<and>
     frame_draws uninit s = Some (map DrawMesh
       ([Plane] @ lamp_primitives @ lamp_primitives @ [Box, Box] @
        [Cylinder, Sphere, Cylinder, Sphere, Sphere] @ [Plane, Box, Box, Box, Box, Box, Plane, Plane])) \<and>
     length lamp_primitives = 10 \<and>
     map_option length (frame_draws uninit s) = Some (1 + 20 + 2 + 5 + 8)"
proof -
  note b = issues_block_draws [OF _ assms]
  have "map_option length (frame_draws uninit s) = Some (1 + 20 + 2 + 5 + 8)"
    by (simp add: RenderScene_frame_draws [OF assms] lamp_primitives_def)
  moreover have "length lamp_primitives = 10" by (simp add: lamp_primitives_def)
  ultimately show ?thesis
    using b [OF issues_table] b [OF issues_lamp1] b [OF issues_lamp2] b [OF issues_books]
      b [OF issues_jar] b [OF issues_window] RenderScene_frame_draws [OF assms]
    by simp
qed

theorem RenderScene_draw_sequence_witness:
  "frame_ready prepared_scene \<and>
   frame_draws black prepared_scene = Some (map DrawMesh
     [Plane,
      Box, Cylinder, Cone, Cylinder, Sphere, Cylinder, Sphere, Cylinder, Cone, Sphere,
      Box, Cylinder, Cone, Cylinder, Sphere, Cylinder, Sphere, Cylinder, Cone, Sphere,
      Box, Box,
      Cylinder, Sphere, Cylinder, Sphere, Sphere,
      Plane, Box, Box, Box, Box, Box, Plane, Plane]) \<and>
   map_option length (frame_draws black prepared_scene) = Some 36"
proof -
  have r: "frame_ready prepared_scene" using prepared_scene_ready by blast
  from RenderScene_draw_sequence [OF r, of black] r show ?thesis
    by (simp add: lamp_primitives_def)
qed

text \<open>
  C1, as stated, fails on the reference scene: each lamp is drawn with ten primitives, not
  nine, so the two lamps take 20 draws, not 18, and the frame does not have
  \<open>18 + 1 + 2 + 5 + 8\<close> draws.
\<close>

theorem RenderScene_lamp_draws_counterexample:
  "map_option length (block_draws (RenderScene_lamp1 black) prepared_scene) = Some 10 \<and>
   map_option length (block_draws (RenderScene_lamp2 black) prepared_scene) = Some 10 \<and>
   map_option length (block_draws (RenderScene_lamp1 black @ RenderScene_lamp2 black) prepared_scene)
     \<noteq> Some 18 \<and>
   map_option length (frame_draws black prepared_scene) \<noteq> Some (18 + 1 + 2 + 5 + 8)"
proof -
  have r: "frame_ready prepared_scene" using prepared_scene_ready by blast
  note b = issues_block_draws [OF _ r]
  show ?thesis
    using b [OF issues_lamp1] b [OF issues_lamp2] b [OF issues_append [OF issues_lamp1 issues_lamp2]]
      RenderScene_frame_draws [OF r]
    by (simp add: lamp_primitives_def)
qed

text \<open>
  C2. With the material of \<open>wood\<close> published, \<open>SetShaderMaterial\<close> for the tag \<open>velvet\<close>,
  which the catalog does not hold, logs nothing and overwrites the three material uniforms
  with the content of its uninitialised local.
\<close>

theorem SetShaderMaterial_unknown_tag_example:
  "published wood_published ''material.diffuseColor'' = Some (Vec3Value (vec3 0.6 0.5 0.2)) \<and>
   published wood_published ''material.specularColor'' = Some (Vec3Value (vec3 0.1 0.2 0.2)) \<and>
   published wood_published ''material.shininess'' = Some (FloatValue 1) \<and>
   cout wood_published = [] \<and>
   ''velvet'' \<notin> OBJECT_MATERIAL.tag ` set (m_objectMaterials wood_published) \<and>
   (\<exists>s'. SetShaderMaterial ''velvet'' black wood_published = Inr s' \<and>
      cout s' = [] \<and>
      published s' ''material.diffuseColor'' = Some (Vec3Value (vec3 0 0 0)) \<and>
      published s' ''material.specularColor'' = Some (Vec3Value (vec3 0 0 0)) \<and>
      published s' ''material.shininess'' = Some (FloatValue 0))"
  by (simp add: wood_published_def SetShaderMaterial_def FindMaterial_def DefineObjectMaterials_def
      new_manager_def SceneManager_ctor_def FindMaterial_loop.simps published_def uniformValue_def
      setUniform_def black_def)

text \<open>
  C3. For every tag, when the material catalog is non-empty but no record's tag matches,
  \<open>FindMaterial\<close> returns true and leaves the output parameter \<open>material\<close> as it was.
  On a non-empty catalog it returns true for every tag \<open>tg'\<close>, matching or not, so the
  result does not tell found from not found.
\<close>

theorem FindMaterial_absent_tag_reports_found:
  assumes "m_objectMaterials s \<noteq> []"
    and "tg \<notin> OBJECT_MATERIAL.tag ` set (m_objectMaterials s)"
  shows "FindMaterial tg material s = (True, material) \<and> fst (FindMaterial tg' material s) = True"
proof -
  from assms(2) have "\<forall>m \<in> set (m_objectMaterials s). OBJECT_MATERIAL.tag m \<noteq> tg" by auto
  with assms(1) show ?thesis
    by (simp add: FindMaterial_def FindMaterial_loop_absent)
qed

theorem FindMaterial_absent_tag_reports_found_witness:
  "m_objectMaterials (DefineObjectMaterials (new_manager None)) \<noteq> [] \<and>
   ''velvet'' \<notin> OBJECT_MATERIAL.tag ` set (m_objectMaterials (DefineObjectMaterials (new_manager None))) \<and>
   FindMaterial ''velvet'' black (DefineObjectMaterials (new_manager None)) = (True, black) \<and>
   fst (FindMaterial ''wood'' black (DefineObjectMaterials (new_manager None))) = True"
proof -
  have 1: "m_objectMaterials (DefineObjectMaterials (new_manager None)) \<noteq> []"
    by (simp add: DefineObjectMaterials_def)
  have 2: "''velvet'' \<notin> OBJECT_MATERIAL.tag ` set (m_objectMaterials (DefineObjectMaterials (new_manager None)))"
    by (simp add: DefineObjectMaterials_def)
  from FindMaterial_absent_tag_reports_found [OF 1 2, of black "''wood''"] 1 2 show ?thesis by simp
qed

text \<open>
  C4. When the shader manager is not null, \<open>SetTransformations\<close> writes to the uniform
  \<open>model\<close> the matrix
  \<open>Translate(position + offset) * RotateZ * RotateY * RotateX * Scale\<close>, each rotation about
  one coordinate axis by the given degrees times \<open>pi / 180\<close>. Applied to a column vector it
  scales first, then rotates about X, then about Y, then about Z, then translates.
\<close>

theorem SetTransformations_composition:
  assumes "m_pShaderManager s = Some sh"
  shows "\<exists>M. published (SetTransformations scaleXYZ xDegrees yDegrees zDegrees positionXYZ offset s) ''model''
             = Some (Mat4Value M) \<and>
     M = spec_Translate (positionXYZ + offset) * spec_RotateZ (zDegrees * pi / 180) *
         spec_RotateY (yDegrees * pi / 180) * spec_RotateX (xDegrees * pi / 180) * spec_Scale scaleXYZ \<and>
     (\<forall>p. mat4_vec M p =
        translate_point (positionXYZ + offset)
          (rotateZ_point (zDegrees * pi / 180)
            (rotateY_point (yDegrees * pi / 180)
              (rotateX_point (xDegrees * pi / 180)
                (scale_point scaleXYZ p)))))"
  using assms
  by (simp add: SetTransformations_def published_def uniformValue_def setUniform_def Let_def
      glm_rotate_X glm_rotate_Y glm_rotate_Z glm_scale_spec glm_translate_spec glm_radians_def
      mat4_vec_times mat4_vec_Scale mat4_vec_RotateX mat4_vec_RotateY mat4_vec_RotateZ
      mat4_vec_Translate del: glm_rotate.simps glm_scale.simps glm_translate.simps times_mat4.simps)

theorem SetTransformations_composition_witness:
  "m_pShaderManager (new_manager (Some [])) = Some [] \<and>
   published (SetTransformations (vec3 1.5 0.5 1.5) 0 0 180 (vec3 (- 3) 0.05 0) (vec3 0 0.7 0)
                (new_manager (Some []))) ''model''
     = Some (Mat4Value (mat4 (vec4 (- 1.5) 0 0 0) (vec4 0 (- 0.5) 0 0) (vec4 0 0 1.5 0) (vec4 (- 3) 0.75 0 1))) \<and>
   mat4_vec (mat4 (vec4 (- 1.5) 0 0 0) (vec4 0 (- 0.5) 0 0) (vec4 0 0 1.5 0) (vec4 (- 3) 0.75 0 1)) (vec4 1 1 1 1)
     = vec4 (- 4.5) 0.25 1.5 1"
proof -
  have sh: "m_pShaderManager (new_manager (Some [])) = Some []"
    by (simp add: new_manager_def SceneManager_ctor_def)
  from SetTransformations_composition [OF sh, of "vec3 1.5 0.5 1.5" 0 0 180 "vec3 (- 3) 0.05 0" "vec3 0 0.7 0"]
  obtain M where p: "published (SetTransformations (vec3 1.5 0.5 1.5) 0 0 180 (vec3 (- 3) 0.05 0) (vec3 0 0.7 0)
                (new_manager (Some []))) ''model'' = Some (Mat4Value M)"
    and M: "M = spec_Translate (vec3 (- 3) 0.05 0 + vec3 0 0.7 0) * spec_RotateZ (180 * pi / 180) *
         spec_RotateY (0 * pi / 180) * spec_RotateX (0 * pi / 180) * spec_Scale (vec3 1.5 0.5 1.5)"
    by blast
  have "M = mat4 (vec4 (- 1.5) 0 0 0) (vec4 0 (- 0.5) 0 0) (vec4 0 0 1.5 0) (vec4 (- 3) 0.75 0 1)"
    by (simp add: M spec_Translate_def spec_RotateZ_def spec_RotateY_def spec_RotateX_def spec_Scale_def)
  with p sh show ?thesis by simp
qed

text \<open>
  C5. After a run of registrations that all succeed, starting from an empty registry,
  \<open>BindGLTextures\<close> binds the texture of the \<open>i\<close>-th registration to texture unit \<open>i\<close>,
  counting from 0; \<open>FindTextureSlot\<close> returns the index of the first registration with
  the tag asked for, and \<open>-1\<close> for a tag that was not registered.
\<close>

theorem registration_order_is_slot_order:
  assumes "registry_ok s0" and "m_loadedTextures s0 = 0"
    and "CreateGLTextures reqs s0 = Inr (bs, s)" and "\<forall>b \<in> set bs. b"
  shows "\<exists>s'. BindGLTextures s = Inr s' \<and>
           m_loadedTextures s' = int (length reqs) \<and>
           (\<forall>i < length reqs. gl_binding2D (gl s') (int i) = request_ID (reqs ! i)) \<and>
           (\<forall>i < length reqs. (\<forall>j < i. request_tag (reqs ! j) \<noteq> request_tag (reqs ! i)) \<longrightarrow>
                FindTextureSlot (request_tag (reqs ! i)) s' = Inr (int i)) \<and>
           (\<forall>tg. tg \<notin> request_tag ` set reqs \<longrightarrow> FindTextureSlot tg s' = Inr (- 1))"
proof -
  let ?E = "\<lambda>r. \<lparr> TEXTURE_INFO.tag = request_tag r, ID = request_ID r \<rparr>"
  from CreateGLTextures_registered [OF assms(1,3,4)] assms(2)
  have ok: "registry_ok s" and reg: "registered s = map ?E reqs"
    by (simp_all add: registered_def)
  from length_registered [OF ok] reg have n: "m_loadedTextures s = int (length reqs)" by simp
  have nth: "m_textureIDs s ! i = ?E (reqs ! i)" if "i < length reqs" for i
    using registered_nth [OF ok, of "int i"] that n reg by simp
  from ok have le: "m_loadedTextures s \<le> MAX_TEXTURES" by (simp add: registry_ok_def)
  from BindGLTextures_ok [OF ok] obtain g' where
    b: "BindGLTextures s = Inr (s\<lparr> gl := g' \<rparr>)" and
    u: "\<forall>j. gl_binding2D g' j =
        (if 0 \<le> j \<and> j < m_loadedTextures s then ID (m_textureIDs s ! nat j) else gl_binding2D (gl s) j)"
    by blast
  have 1: "gl_binding2D g' (int i) = request_ID (reqs ! i)" if "i < length reqs" for i
    using u that n nth by simp
  have 2: "FindTextureSlot (request_tag (reqs ! i)) (s\<lparr> gl := g' \<rparr>) = Inr (int i)"
    if i: "i < length reqs" and first: "\<forall>j < i. request_tag (reqs ! j) \<noteq> request_tag (reqs ! i)" for i
  proof -
    have "FindTextureSlot_loop (request_tag (reqs ! i)) (m_loadedTextures s) (m_textureIDs s) 0 False (- 1) = Inr (int i)"
    proof (rule FindTextureSlot_loop_first [OF order_refl le])
      show "0 \<le> int i" by simp
      show "int i < m_loadedTextures s" using i n by simp
      show "TEXTURE_INFO.tag (m_textureIDs s ! nat (int i)) = request_tag (reqs ! i)"
        using nth [OF i] by simp
      show "\<forall>j. 0 \<le> j \<and> j < int i \<longrightarrow> TEXTURE_INFO.tag (m_textureIDs s ! nat j) \<noteq> request_tag (reqs ! i)"
      proof (intro allI impI)
        fix j :: int assume j: "0 \<le> j \<and> j < int i"
        then have "nat j < i" by auto
        with first i nth [of "nat j"] show "TEXTURE_INFO.tag (m_textureIDs s ! nat j) \<noteq> request_tag (reqs ! i)"
          by auto
      qed
    qed
    then show ?thesis by (simp add: FindTextureSlot_def)
  qed
  have 3: "FindTextureSlot tg (s\<lparr> gl := g' \<rparr>) = Inr (- 1)" if absent: "tg \<notin> request_tag ` set reqs" for tg
  proof -
    have "FindTextureSlot_loop tg (m_loadedTextures s) (m_textureIDs s) 0 False (- 1) = Inr (- 1)"
    proof (rule FindTextureSlot_loop_absent [OF order_refl le], intro allI impI)
      fix j :: int assume j: "0 \<le> j \<and> j < m_loadedTextures s"
      then have lt: "nat j < length reqs" using n by auto
      then have "reqs ! nat j \<in> set reqs" by simp
      with absent have "request_tag (reqs ! nat j) \<noteq> tg" by auto
      with nth [OF lt] show "TEXTURE_INFO.tag (m_textureIDs s ! nat j) \<noteq> tg" by simp
    qed
    then show ?thesis by (simp add: FindTextureSlot_def)
  qed
  from b n 1 2 3 show ?thesis by simp
qed

theorem registration_order_is_slot_order_witness:
  "registry_ok (new_manager None) \<and> m_loadedTextures (new_manager None) = 0 \<and>
   (\<exists>s s'. CreateGLTextures abc_requests (new_manager None) = Inr ([True, True, True], s) \<and>
      BindGLTextures s = Inr s' \<and>
      gl_binding2D (gl s') 0 = 7 \<and> gl_binding2D (gl s') 1 = 8 \<and> gl_binding2D (gl s') 2 = 9 \<and>
      FindTextureSlot ''a'' s' = Inr 0 \<and> FindTextureSlot ''b'' s' = Inr 1 \<and>
      FindTextureSlot ''c'' s' = Inr 2 \<and> FindTextureSlot ''d'' s' = Inr (- 1))"
proof -
  have ok: "registry_ok (new_manager None)" by (simp add: new_manager_def registry_ok_ctor)
  have zero: "m_loadedTextures (new_manager None) = 0" by (simp add: new_manager_def SceneManager_ctor_def)
  have all: "\<forall>b \<in> set [True, True, True]. b" by simp
  from registration_order_is_slot_order [OF ok zero abc_loaded(1) all]
  obtain s' where b: "BindGLTextures (loaded abc_requests (new_manager None)) = Inr s'"
    and u: "\<forall>i < length abc_requests. gl_binding2D (gl s') (int i) = request_ID (abc_requests ! i)"
    and f: "\<forall>i < length abc_requests. (\<forall>j < i. request_tag (abc_requests ! j) \<noteq> request_tag (abc_requests ! i)) \<longrightarrow>
                FindTextureSlot (request_tag (abc_requests ! i)) s' = Inr (int i)"
    and a: "\<forall>tg. tg \<notin> request_tag ` set abc_requests \<longrightarrow> FindTextureSlot tg s' = Inr (- 1)"
    by blast
  have "gl_binding2D (gl s') 0 = 7" "gl_binding2D (gl s') 1 = 8" "gl_binding2D (gl s') 2 = 9"
    using u [rule_format, of 0] u [rule_format, of "Suc 0"] u [rule_format, of "Suc (Suc 0)"]
    by (simp_all add: abc_requests_def request_ID_def)
  moreover have "FindTextureSlot ''a'' s' = Inr 0" "FindTextureSlot ''b'' s' = Inr 1"
    using f [rule_format, of 0] f [rule_format, of "Suc 0"]
    by (simp_all add: abc_requests_def request_tag_def)
  moreover have "\<forall>j < Suc (Suc 0). request_tag (abc_requests ! j) \<noteq> request_tag (abc_requests ! Suc (Suc 0))"
    by (auto simp: abc_requests_def request_tag_def less_Suc_eq)
  then have "FindTextureSlot ''c'' s' = Inr 2"
    using f [rule_format, of "Suc (Suc 0)"] by (simp add: abc_requests_def request_tag_def)
  moreover have "FindTextureSlot ''d'' s' = Inr (- 1)"
    using a [rule_format, of "''d''"] by (simp add: abc_requests_def request_tag_def)
  ultimately show ?thesis using ok zero abc_loaded(1) b by blast
qed

text \<open>
  C6, as amended. When the registry holds \<open>MAX_TEXTURES\<close> textures and a further image
  is decoded, \<open>CreateGLTexture\<close> returns false and leaves the count and the array as they
  were, so that every tag resolves to the same slot and handle as before. When the image
  has three or four channels, so that the capacity test is reached, the texture just
  generated is deleted and no other texture of the context is touched.
\<close>

theorem CreateGLTexture_registry_full:
  assumes "m_loadedTextures s = MAX_TEXTURES"
  shows "\<exists>s'. CreateGLTexture filename tg (Some img) textureID s = Inr (False, s') \<and>
     m_loadedTextures s' = m_loadedTextures s \<and> m_textureIDs s' = m_textureIDs s \<and>
     (\<forall>t. FindTextureSlot t s' = FindTextureSlot t s) \<and>
     (\<forall>t. FindTextureID t s' = FindTextureID t s) \<and>
     (colorChannels img = 3 \<or> colorChannels img = 4 \<longrightarrow>
        gl_objects (gl s') = (gl_objects (gl s))(textureID := None) \<and>
        gl_deleted (gl s') = gl_deleted (gl s) @ [textureID] \<and>
        cout s' = cout s @ [LoadedImage filename (width img) (height img) (colorChannels img),
                            MaxTexturesLoaded filename])"
proof (cases "colorChannels img = 3 \<or> colorChannels img = 4")
  case True
  define g2 where "g2 = glTexParameteri GL_TEXTURE_MAG_FILTER GL_LINEAR
                     (glTexParameteri GL_TEXTURE_MIN_FILTER GL_LINEAR
                       (glTexParameteri GL_TEXTURE_WRAP_T GL_REPEAT
                         (glTexParameteri GL_TEXTURE_WRAP_S GL_REPEAT
                           (glBindTexture textureID (glGenTextures textureID (gl s))))))"
  define g4 where "g4 = glBindTexture 0 (glGenerateMipmap (glTexImage2D
      (if colorChannels img = 3 then GL_RGB8 else GL_RGBA8) (width img) (height img) g2))"
  define s' where "s' = s\<lparr> cout := cout s @ [LoadedImage filename (width img) (height img) (colorChannels img),
                         MaxTexturesLoaded filename], gl := glDeleteTextures textureID g4 \<rparr>"
  note up = texture_upload [OF g2_def g4_def]
  have "CreateGLTexture filename tg (Some img) textureID s = Inr (False, s')"
    using assms True by (auto simp: CreateGLTexture_def Let_def s'_def g4_def g2_def)
  moreover have "gl_objects (gl s') = (gl_objects (gl s))(textureID := None)"
    using up(1) by (simp add: s'_def glDeleteTextures_def)
  moreover have "gl_deleted (gl s') = gl_deleted (gl s) @ [textureID]"
    using up(2) by (simp add: s'_def glDeleteTextures_def)
  ultimately show ?thesis
    by (simp add: s'_def FindTextureSlot_def FindTextureID_def)
next
  case False
  then have "colorChannels img \<noteq> 3" and "colorChannels img \<noteq> 4" by simp_all
  from CreateGLTexture_unsupported_channels [OF this, of filename tg textureID s]
  obtain s' where "CreateGLTexture filename tg (Some img) textureID s = Inr (False, s')"
    and "m_loadedTextures s' = m_loadedTextures s" and "m_textureIDs s' = m_textureIDs s"
    by blast
  with False show ?thesis
    by (simp add: FindTextureSlot_def FindTextureID_def)
qed

theorem CreateGLTexture_registry_full_witness:
  "m_loadedTextures (loaded sixteen_requests (new_manager None)) = MAX_TEXTURES \<and>
   colorChannels rgb_image = 3 \<and>
   (\<exists>s'. CreateGLTexture ''textures/q.jpg'' ''q'' (Some rgb_image) 17 (loaded sixteen_requests (new_manager None)) = Inr (False, s') \<and>
      m_loadedTextures s' = 16 \<and>
      FindTextureSlot ''c'' s' = Inr 2 \<and> FindTextureID ''c'' s' = Inr 3 \<and>
      FindTextureSlot ''q'' s' = Inr (- 1) \<and>
      gl_objects (gl s') 17 = None \<and>
      gl_deleted (gl s') = [17])"
proof -
  have full: "m_loadedTextures (loaded sixteen_requests (new_manager None)) = MAX_TEXTURES"
    by (simp add: sixteen_loaded MAX_TEXTURES_def)
  have ch: "colorChannels rgb_image = 3" by (simp add: rgb_image_def)
  have look: "FindTextureSlot ''c'' (loaded sixteen_requests (new_manager None)) = Inr 2"
    "FindTextureID ''c'' (loaded sixteen_requests (new_manager None)) = Inr 3"
    "FindTextureSlot ''q'' (loaded sixteen_requests (new_manager None)) = Inr (- 1)"
    by (simp_all add: FindTextureSlot_registered FindTextureID_registered sixteen_loaded
        FindTextureSlot_loop.simps FindTextureID_loop.simps MAX_TEXTURES_def)
  from CreateGLTexture_registry_full [OF full, of "''textures/q.jpg''" "''q''" rgb_image 17]
  show ?thesis using full ch sixteen_loaded(3,4) look by auto
qed

text \<open>
  C6, as stated, fails for a decoded image with one channel: with the registry full the
  load returns false from the branch for an unsupported channel count, and the texture it
  has generated under the name 17, which named no texture before, still exists and has
  not been passed to \<open>glDeleteTextures\<close>.
\<close>

theorem CreateGLTexture_grey_at_capacity_counterexample:
  "m_loadedTextures (loaded sixteen_requests (new_manager None)) = MAX_TEXTURES \<and>
   gl_objects (gl (loaded sixteen_requests (new_manager None))) 17 = None \<and>
   CreateGLTexture ''textures/grey.jpg'' ''grey'' (Some grey_image) 17
       (loaded sixteen_requests (new_manager None)) = Inr (False, grey_at_capacity) \<and>
   gl_objects (gl grey_at_capacity) 17 \<noteq> None \<and>
   gl_deleted (gl grey_at_capacity) = []"
proof -
  have full: "m_loadedTextures (loaded sixteen_requests (new_manager None)) = MAX_TEXTURES"
    by (simp add: sixteen_loaded MAX_TEXTURES_def)
  have "colorChannels grey_image \<noteq> 3" and "colorChannels grey_image \<noteq> 4"
    by (simp_all add: grey_image_def)
  from CreateGLTexture_unsupported_channels [OF this, of "''textures/grey.jpg''" "''grey''" 17
      "loaded sixteen_requests (new_manager None)"]
  obtain s' where c: "CreateGLTexture ''textures/grey.jpg'' ''grey'' (Some grey_image) 17
       (loaded sixteen_requests (new_manager None)) = Inr (False, s')"
    and o: "gl_objects (gl s') 17 \<noteq> None"
    and d: "gl_deleted (gl s') = gl_deleted (gl (loaded sixteen_requests (new_manager None)))"
    by blast
  from c have g: "grey_at_capacity = s'" by (simp add: grey_at_capacity_def)
  from full sixteen_fresh_name c o d sixteen_loaded(4) [of None] show ?thesis
    unfolding g by simp
qed

text \<open>
  C7. With a null shader manager \<open>SetTransformations\<close>, \<open>SetShaderColor\<close>,
  \<open>SetShaderTexture\<close> and \<open>SetTextureUVScale\<close> leave the state as it is. \<open>SetShaderMaterial\<close>
  does not test the pointer: once the catalog is defined it calls through the null
  pointer.
\<close>

theorem SetShaderMaterial_null_shader_example:
  "SetTransformations (vec3 1 1 1) 0 0 0 (vec3 0 0 0) (vec3 0 0 0) (DefineObjectMaterials (new_manager None))
     = DefineObjectMaterials (new_manager None) \<and>
   SetShaderColor 1 1 1 1 (DefineObjectMaterials (new_manager None)) = DefineObjectMaterials (new_manager None) \<and>
   SetShaderTexture ''table'' (DefineObjectMaterials (new_manager None))
     = Inr (DefineObjectMaterials (new_manager None)) \<and>
   SetTextureUVScale 1 1 (DefineObjectMaterials (new_manager None)) = DefineObjectMaterials (new_manager None) \<and>
   SetShaderMaterial ''wood'' black (DefineObjectMaterials (new_manager None)) = Inl NullPointerDereference"
proof -
  have n: "m_pShaderManager (DefineObjectMaterials (new_manager None)) = None"
    and m: "m_objectMaterials (DefineObjectMaterials (new_manager None)) \<noteq> []"
    by (simp_all add: DefineObjectMaterials_def new_manager_def SceneManager_ctor_def)
  from null_shader_publishes [OF n] SetShaderMaterial_null_shader [OF n m] show ?thesis by simp
qed

text \<open>
  C8. After \<open>DefineObjectMaterials\<close> the catalog holds the twelve tags of the scene, and
  \<open>FindMaterial\<close> on each tag returns true and sets the diffuse colour, the specular
  colour and the shininess of the output parameter to the values defined for that tag.
\<close>

theorem DefineObjectMaterials_round_trip:
  "map OBJECT_MATERIAL.tag (m_objectMaterials (DefineObjectMaterials s)) =
     [''plastic'', ''wood'', ''metal'', ''glass'', ''tile'', ''stone'', ''lampshade'', ''lampbase'',
      ''bookcover'', ''jar'', ''tableSurface'', ''windowFrame''] \<and>
   FindMaterial ''plastic'' material (DefineObjectMaterials s) =
     (True, material\<lparr> diffuseColor := vec3 0.8 0.4 0.8, specularColor := vec3 0.2 0.2 0.2, shininess := 1.0 \<rparr>) \<and>
   FindMaterial ''wood'' material (DefineObjectMaterials s) =
     (True, material\<lparr> diffuseColor := vec3 0.6 0.5 0.2, specularColor := vec3 0.1 0.2 0.2, shininess := 1.0 \<rparr>) \<and>
   FindMaterial ''metal'' material (DefineObjectMaterials s) =
     (True, material\<lparr> diffuseColor := vec3 0.3 0.3 0.2, specularColor := vec3 0.7 0.7 0.8, shininess := 8.0 \<rparr>) \<and>
   FindMaterial ''glass'' material (DefineObjectMaterials s) =
     (True, material\<lparr> diffuseColor := vec3 0.3 0.3 0.2, specularColor := vec3 0.9 0.9 0.8, shininess := 10.0 \<rparr>) \<and>
   FindMaterial ''tile'' material (DefineObjectMaterials s) =
     (True, material\<lparr> diffuseColor := vec3 0.5 0.5 0.5, specularColor := vec3 0.7 0.7 0.7, shininess := 6.0 \<rparr>) \<and>
   FindMaterial ''stone'' material (DefineObjectMaterials s) =
     (True, material\<lparr> diffuseColor := vec3 0.5 0.5 0.5, specularColor := vec3 0.73 0.3 0.3, shininess := 6.0 \<rparr>) \<and>
   FindMaterial ''lampshade'' material (DefineObjectMaterials s) =
     (True, material\<lparr> diffuseColor := vec3 1.0 0.98 0.88, specularColor := vec3 0.1 0.1 0.1, shininess := 0.5 \<rparr>) \<and>
   FindMaterial ''lampbase'' material (DefineObjectMaterials s) =
     (True, material\<lparr> diffuseColor := vec3 0.25 0.15 0.05, specularColor := vec3 0.2 0.2 0.1, shininess := 3.0 \<rparr>) \<and>
   FindMaterial ''bookcover'' material (DefineObjectMaterials s) =
     (True, material\<lparr> diffuseColor := vec3 0.4 0.05 0.05, specularColor := vec3 0.05 0.05 0.05, shininess := 0.8 \<rparr>) \<and>
   FindMaterial ''jar'' material (DefineObjectMaterials s) =
     (True, material\<lparr> diffuseColor := vec3 0.7 0.7 0.9, specularColor := vec3 0.3 0.3 0.4, shininess := 3.0 \<rparr>) \<and>
   FindMaterial ''tableSurface'' material (DefineObjectMaterials s) =
     (True, material\<lparr> diffuseColor := vec3 0.4 0.3 0.2, specularColor := vec3 0.8 0.8 0.8, shininess := 30.0 \<rparr>) \<and>
   FindMaterial ''windowFrame'' material (DefineObjectMaterials s) =
     (True, material\<lparr> diffuseColor := vec3 0.9 0.9 0.9, specularColor := vec3 0.1 0.1 0.1, shininess := 1.0 \<rparr>)"
  by (simp add: FindMaterial_def DefineObjectMaterials_def FindMaterial_loop.simps)

text \<open>
  C9. \<open>DestroyGLTextures\<close> twice in a row gives what it gives once, for every state. On a
  well-formed registry it passes the handle of each registered entry to
  \<open>glDeleteTextures\<close> once, after which none of them names a texture, and sets the count
  to zero; a second call deletes nothing and changes nothing.
\<close>

theorem DestroyGLTextures_idempotent:
  "(case DestroyGLTextures s of Inl f \<Rightarrow> Inl f | Inr s1 \<Rightarrow> DestroyGLTextures s1) = DestroyGLTextures s \<and>
   (registry_ok s \<longrightarrow>
     (\<exists>s'. DestroyGLTextures s = Inr s' \<and> m_loadedTextures s' = 0 \<and> registered s' = [] \<and>
        (\<forall>e \<in> set (registered s). gl_objects (gl s') (ID e) = None) \<and>
        gl_deleted (gl s') = gl_deleted (gl s) @ map ID (registered s) \<and>
        DestroyGLTextures s' = Inr s' \<and> registry_ok s'))"
proof (intro conjI impI)
  show "(case DestroyGLTextures s of Inl f \<Rightarrow> Inl f | Inr s1 \<Rightarrow> DestroyGLTextures s1) = DestroyGLTextures s"
    by (rule DestroyGLTextures_twice)
next
  assume ok: "registry_ok s"
  let ?s' = "s\<lparr> gl := fold glDeleteTextures (map ID (registered s)) (gl s), m_loadedTextures := 0 \<rparr>"
  from ok have d: "DestroyGLTextures s = Inr ?s'"
    by (intro DestroyGLTextures_eq) (simp_all add: registry_ok_def)
  have "DestroyGLTextures ?s' = Inr ?s'" by (rule DestroyGLTextures_empty) simp
  moreover have "registry_ok ?s'" using ok by (simp add: registry_ok_def MAX_TEXTURES_def)
  ultimately show "\<exists>s'. DestroyGLTextures s = Inr s' \<and> m_loadedTextures s' = 0 \<and> registered s' = [] \<and>
        (\<forall>e \<in> set (registered s). gl_objects (gl s') (ID e) = None) \<and>
        gl_deleted (gl s') = gl_deleted (gl s) @ map ID (registered s) \<and>
        DestroyGLTextures s' = Inr s' \<and> registry_ok s'"
    using d by (simp add: registered_def fold_glDeleteTextures_objects fold_glDeleteTextures_deleted)
qed

theorem DestroyGLTextures_idempotent_witness:
  "registry_ok (loaded abc_requests (new_manager None)) \<and>
   (\<exists>s'. DestroyGLTextures (loaded abc_requests (new_manager None)) = Inr s' \<and>
      m_loadedTextures s' = 0 \<and>
      gl_objects (gl s') 7 = None \<and> gl_objects (gl s') 8 = None \<and> gl_objects (gl s') 9 = None \<and>
      gl_deleted (gl s') = [7, 8, 9] \<and>
      DestroyGLTextures s' = Inr s')"
  using DestroyGLTextures_idempotent [of "loaded abc_requests (new_manager None)"]
  by (auto simp: abc_loaded)

text \<open>
  C10. The constructor leaves the registry well formed: the count is between 0 and
  \<open>MAX_TEXTURES\<close> and the array has its fixed size. On a well-formed registry
  \<open>CreateGLTexture\<close>, \<open>BindGLTextures\<close>, \<open>DestroyGLTextures\<close>, \<open>FindTextureID\<close> and
  \<open>FindTextureSlot\<close> return without an access outside the array and leave the registry
  well formed. What the scans return and what binding and destroying do to the OpenGL
  context is the same for every array \<open>ids'\<close> that agrees with \<open>m_textureIDs\<close> below the
  count: no entry at or above the count is read.
\<close>

theorem texture_registry_in_bounds:
  "registry_ok (SceneManager_ctor p junk g) \<and>
   (registry_ok s \<longrightarrow>
      (\<exists>b s'. CreateGLTexture filename tg decoded textureID s = Inr (b, s') \<and> registry_ok s') \<and>
      (\<exists>s'. BindGLTextures s = Inr s' \<and> registry_ok s') \<and>
      (\<exists>s'. DestroyGLTextures s = Inr s' \<and> registry_ok s') \<and>
      (\<exists>r. FindTextureID t s = Inr r) \<and>
      (\<exists>r. FindTextureSlot t s = Inr r) \<and>
      (\<forall>ids'. (\<forall>j. 0 \<le> j \<and> j < m_loadedTextures s \<longrightarrow> ids' ! nat j = m_textureIDs s ! nat j) \<longrightarrow>
          map_sum id gl (BindGLTextures (s\<lparr> m_textureIDs := ids' \<rparr>)) = map_sum id gl (BindGLTextures s) \<and>
          map_sum id gl (DestroyGLTextures (s\<lparr> m_textureIDs := ids' \<rparr>)) = map_sum id gl (DestroyGLTextures s) \<and>
          FindTextureID t (s\<lparr> m_textureIDs := ids' \<rparr>) = FindTextureID t s \<and>
          FindTextureSlot t (s\<lparr> m_textureIDs := ids' \<rparr>) = FindTextureSlot t s))"
proof (intro conjI impI allI)
  show "registry_ok (SceneManager_ctor p junk g)" by (rule registry_ok_ctor)
next
  assume ok: "registry_ok s"
  then have le: "m_loadedTextures s \<le> MAX_TEXTURES" by (simp add: registry_ok_def)
  show "\<exists>b s'. CreateGLTexture filename tg decoded textureID s = Inr (b, s') \<and> registry_ok s'"
    by (rule CreateGLTexture_total [OF ok])
  from BindGLTextures_ok [OF ok] ok show "\<exists>s'. BindGLTextures s = Inr s' \<and> registry_ok s'"
    by (auto simp: registry_ok_def)
  from DestroyGLTextures_eq [of s] ok show "\<exists>s'. DestroyGLTextures s = Inr s' \<and> registry_ok s'"
    by (auto simp: registry_ok_def MAX_TEXTURES_def)
  show "\<exists>r. FindTextureID t s = Inr r"
    unfolding FindTextureID_def by (rule FindTextureID_loop_ok [OF order_refl le])
  show "\<exists>r. FindTextureSlot t s = Inr r"
    unfolding FindTextureSlot_def by (rule FindTextureSlot_loop_ok [OF order_refl le])
next
  fix ids'
  assume a: "\<forall>j. 0 \<le> j \<and> j < m_loadedTextures s \<longrightarrow> ids' ! nat j = m_textureIDs s ! nat j"
  show "map_sum id gl (BindGLTextures (s\<lparr> m_textureIDs := ids' \<rparr>)) = map_sum id gl (BindGLTextures s)"
    using BindGLTextures_loop_agree [OF order_refl a, of "gl s"]
    by (simp add: BindGLTextures_def split: sum.splits)
  show "map_sum id gl (DestroyGLTextures (s\<lparr> m_textureIDs := ids' \<rparr>)) = map_sum id gl (DestroyGLTextures s)"
    using DestroyGLTextures_loop_agree [OF order_refl a, of "gl s"]
    by (simp add: DestroyGLTextures_def split: sum.splits)
  show "FindTextureID t (s\<lparr> m_textureIDs := ids' \<rparr>) = FindTextureID t s"
    using FindTextureID_loop_agree [OF order_refl a] by (simp add: FindTextureID_def)
  show "FindTextureSlot t (s\<lparr> m_textureIDs := ids' \<rparr>) = FindTextureSlot t s"
    using FindTextureSlot_loop_agree [OF order_refl a] by (simp add: FindTextureSlot_def)
qed

theorem texture_registry_in_bounds_witness:
  "registry_ok (loaded abc_requests (new_manager None)) \<and>
   (\<exists>b s'. CreateGLTexture ''d.jpg'' ''d'' (Some rgb_image) 10 (loaded abc_requests (new_manager None)) = Inr (b, s') \<and> registry_ok s') \<and>
   (\<exists>s'. BindGLTextures (loaded abc_requests (new_manager None)) = Inr s' \<and> registry_ok s') \<and>
   (\<exists>s'. DestroyGLTextures (loaded abc_requests (new_manager None)) = Inr s' \<and> registry_ok s') \<and>
   (\<exists>r. FindTextureID ''b'' (loaded abc_requests (new_manager None)) = Inr r) \<and>
   (\<exists>r. FindTextureSlot ''b'' (loaded abc_requests (new_manager None)) = Inr r) \<and>
   FindTextureSlot ''b'' ((loaded abc_requests (new_manager None))
       \<lparr> m_textureIDs := (m_textureIDs (loaded abc_requests (new_manager None)))[3 := \<lparr> TEXTURE_INFO.tag = ''b'', ID = 99 \<rparr>] \<rparr>) =
     FindTextureSlot ''b'' (loaded abc_requests (new_manager None))"
proof -
  let ?s = "loaded abc_requests (new_manager None)"
  let ?ids = "(m_textureIDs ?s)[3 := \<lparr> TEXTURE_INFO.tag = ''b'', ID = 99 \<rparr>]"
  have a: "\<forall>j. 0 \<le> j \<and> j < m_loadedTextures ?s \<longrightarrow> ?ids ! nat j = m_textureIDs ?s ! nat j"
    by (auto simp: abc_loaded(4))
  note t = texture_registry_in_bounds [of None "\<lambda>i. 0" gl_initial ?s "''d.jpg''" "''d''" "Some rgb_image" 10 "''b''",
      THEN conjunct2, THEN mp, OF abc_loaded(2)]
  note t1 = t [THEN conjunct1]
    and t2 = t [THEN conjunct2, THEN conjunct1]
    and t3 = t [THEN conjunct2, THEN conjunct2, THEN conjunct1]
    and t4 = t [THEN conjunct2, THEN conjunct2, THEN conjunct2, THEN conjunct1]
    and t5 = t [THEN conjunct2, THEN conjunct2, THEN conjunct2, THEN conjunct2, THEN conjunct1]
    and t6 = t [THEN conjunct2, THEN conjunct2, THEN conjunct2, THEN conjunct2, THEN conjunct2,
                THEN spec [where x = "?ids"], THEN mp, OF a,
                THEN conjunct2, THEN conjunct2, THEN conjunct2]
  show ?thesis
    by (intro conjI) (rule abc_loaded(2) t1 t2 t3 t4 t5 t6)+
qed

end
